theory Spec2Isabelle
  imports Complex_Main "HOL-Library.Sublist"
begin

section \<open>Go library functions used by the programs\<close>

text \<open>
  Strings are byte strings, as in Go. The functions of this section are the parts of the
  Go standard library and of the MCP library that the handlers call and that are pure:
  \<^verbatim>\<open>strings.HasPrefix\<close>, \<^verbatim>\<open>strings.ToLower\<close>,
  \<^verbatim>\<open>strings.Join\<close>, \<^verbatim>\<open>filepath.Clean\<close>, \<^verbatim>\<open>filepath.Join\<close> and \<^verbatim>\<open>filepath.Ext\<close> for
  slash-separated paths, \<^verbatim>\<open>base64.StdEncoding.EncodeToString\<close>, the \<^verbatim>\<open>%d\<close> verb of
  \<^verbatim>\<open>fmt\<close>, and the argument accessors of \<^verbatim>\<open>mcp.CallToolRequest\<close>. Whatever depends on the
  operating system, the network or the peer is a field of an environment record instead.
\<close>

definition strings_HasPrefix :: "string \<Rightarrow> string \<Rightarrow> bool" where
  "strings_HasPrefix s pre = prefix pre s"

definition lower_byte :: "char \<Rightarrow> char" where
  "lower_byte c =
     (case map_of (zip ''ABCDEFGHIJKLMNOPQRSTUVWXYZ'' ''abcdefghijklmnopqrstuvwxyz'') c of
        Some l \<Rightarrow> l
      | None \<Rightarrow> c)"

text \<open>
  \<^verbatim>\<open>strings.ToLower\<close> lower-cases a string of ASCII bytes byte by byte. A string with a
  byte beyond ASCII goes through the Unicode case mapping (which also folds letters such
  as U+0130 and U+212A and replaces invalid bytes); that mapping is the parameter
  \<open>unicode_map\<close>.
\<close>

definition isASCII :: "string \<Rightarrow> bool" where
  "isASCII s = list_all (\<lambda>c. (of_char c :: nat) < 128) s"

definition strings_ToLower :: "(string \<Rightarrow> string) \<Rightarrow> string \<Rightarrow> string" where
  "strings_ToLower unicode_map s = (if isASCII s then map lower_byte s else unicode_map s)"

fun strings_Join :: "string list \<Rightarrow> string \<Rightarrow> string" where
  "strings_Join [] sep = []"
| "strings_Join [e] sep = e"
| "strings_Join (e # es) sep = e @ sep @ strings_Join es sep"

text \<open>Splitting a path at its slashes; \<open>cur\<close> holds the element being read, reversed.\<close>

fun split_slash :: "string \<Rightarrow> string \<Rightarrow> string list" where
  "split_slash [] cur = [rev cur]"
| "split_slash (c # cs) cur =
     (if c = CHR ''/'' then rev cur # split_slash cs [] else split_slash cs (c # cur))"

text \<open>
  The lexical rules of \<^verbatim>\<open>filepath.Clean\<close>: empty and \<^verbatim>\<open>.\<close> elements vanish, an inner
  \<^verbatim>\<open>..\<close> removes the element before it, a \<^verbatim>\<open>..\<close> at the root of a rooted path vanishes,
  and leading \<^verbatim>\<open>..\<close> elements of a relative path stay. \<open>out\<close> is the cleaned path so far,
  last element first.
\<close>

fun clean_elems :: "bool \<Rightarrow> string list \<Rightarrow> string list \<Rightarrow> string list" where
  "clean_elems rooted [] out = rev out"
| "clean_elems rooted (e # es) out =
     (if e = [] \<or> e = ''.'' then clean_elems rooted es out
      else if e = ''..'' then
        (case out of
           [] \<Rightarrow> if rooted then clean_elems rooted es [] else clean_elems rooted es [''..'']
         | p # ps \<Rightarrow>
             if p = ''..'' then clean_elems rooted es (''..'' # p # ps)
             else clean_elems rooted es ps)
      else clean_elems rooted es (e # out))"

definition filepath_IsAbs :: "string \<Rightarrow> bool" where
  "filepath_IsAbs path = strings_HasPrefix path ''/''"

definition filepath_Clean :: "string \<Rightarrow> string" where
  "filepath_Clean path =
     (let rooted = filepath_IsAbs path;
          out = strings_Join (clean_elems rooted (split_slash path []) []) ''/''
      in if rooted then ''/'' @ out else if out = [] then ''.'' else out)"

fun filepath_Join :: "string list \<Rightarrow> string" where
  "filepath_Join [] = []"
| "filepath_Join (e # es) =
     (if e \<noteq> [] then filepath_Clean (strings_Join (e # es) ''/'') else filepath_Join es)"

text \<open>
  \<^verbatim>\<open>filepath.Ext\<close> scans from the end of the path to the last slash and returns the suffix
  that starts at the last dot it meets; \<open>acc\<close> is the suffix read so far.
\<close>

fun ext_scan :: "string \<Rightarrow> string \<Rightarrow> string" where
  "ext_scan [] acc = []"
| "ext_scan (c # cs) acc =
     (if c = CHR ''/'' then []
      else if c = CHR ''.'' then c # acc
      else ext_scan cs (c # acc))"

definition filepath_Ext :: "string \<Rightarrow> string" where
  "filepath_Ext path = ext_scan (rev path) []"

definition base64_alphabet :: string where
  "base64_alphabet = ''ABCDEFGHIJKLMNOPQRSTUVWXYZabcdefghijklmnopqrstuvwxyz0123456789+/''"

definition base64_digit :: "nat \<Rightarrow> char" where
  "base64_digit n = base64_alphabet ! (n mod 64)"

fun base64_EncodeToString :: "string \<Rightarrow> string" where
  "base64_EncodeToString [] = []"
| "base64_EncodeToString [a] =
     (let x = (of_char a :: nat)
      in [base64_digit (x div 4), base64_digit ((x mod 4) * 16), CHR ''='', CHR ''=''])"
| "base64_EncodeToString [a, b] =
     (let x = (of_char a :: nat); y = (of_char b :: nat)
      in [base64_digit (x div 4), base64_digit ((x mod 4) * 16 + y div 16),
          base64_digit ((y mod 16) * 4), CHR ''=''])"
| "base64_EncodeToString (a # b # c # rest) =
     (let x = (of_char a :: nat); y = (of_char b :: nat); z = (of_char c :: nat)
      in [base64_digit (x div 4), base64_digit ((x mod 4) * 16 + y div 16),
          base64_digit ((y mod 16) * 4 + z div 64), base64_digit (z mod 64)]
         @ base64_EncodeToString rest)"

fun decimal_nat :: "nat \<Rightarrow> string" where
  "decimal_nat n =
     (if n < 10 then [''0123456789'' ! n]
      else decimal_nat (n div 10) @ [''0123456789'' ! (n mod 10)])"

definition decimal_int :: "int \<Rightarrow> string" where
  "decimal_int i = (if i < 0 then CHR ''-'' # decimal_nat (nat (- i)) else decimal_nat (nat i))"

text \<open>
  The arguments of a tool call are a JSON object; only whether an argument is a string
  matters to the handlers. \<^verbatim>\<open>RequireString\<close> fails when the argument is missing or is not
  a string, \<^verbatim>\<open>GetString\<close> falls back to its default in both cases.
\<close>

datatype arg_value = StringArg string | OtherArg

datatype arg_error = ArgumentNotFound string | ArgumentNotString string

definition RequireString :: "(string \<rightharpoonup> arg_value) \<Rightarrow> string \<Rightarrow> arg_error + string" where
  "RequireString args key =
     (case args key of
        None \<Rightarrow> Inl (ArgumentNotFound key)
      | Some (StringArg s) \<Rightarrow> Inr s
      | Some OtherArg \<Rightarrow> Inl (ArgumentNotString key))"

definition GetString :: "(string \<rightharpoonup> arg_value) \<Rightarrow> string \<Rightarrow> string \<Rightarrow> string" where
  "GetString args key dflt = (case args key of Some (StringArg s) \<Rightarrow> s | _ \<Rightarrow> dflt)"

section \<open>The MCP data types the programs exchange\<close>

text \<open>
  \<^verbatim>\<open>mcp.Content\<close> is an interface. The programs build and inspect two implementations,
  \<^verbatim>\<open>mcp.TextContent\<close> and \<^verbatim>\<open>mcp.ImageContent\<close>, with the fields written below; every other
  implementation is \<open>OtherContent\<close>, which no branch of the programs looks into.
  Record fields carry a prefix naming their struct, since several structs share field names.
  Go errors are the strings their \<^verbatim>\<open>Error\<close> method returns.
\<close>

datatype Content =
    TextContent string string
  | ImageContent string string string
  | OtherContent string

definition RoleUser :: string where
  "RoleUser = ''user''"

definition RoleAssistant :: string where
  "RoleAssistant = ''assistant''"

record SamplingMessage =
  msg_Role :: string
  msg_Content :: Content

record CreateMessageRequest =
  req_Messages :: "SamplingMessage list"
  req_SystemPrompt :: string
  req_MaxTokens :: int
  req_Temperature :: real

record CreateMessageResult = SamplingMessage +
  res_Model :: string
  res_StopReason :: string

record CallToolResult =
  tool_Content :: "Content list"
  tool_IsError :: bool

section \<open>The enhanced server: the \<^verbatim>\<open>analyze_file\<close> tool\<close>

text \<open>
  What the handler asks of its surroundings: \<^verbatim>\<open>filepath.Abs\<close> (it consults the working
  directory), \<^verbatim>\<open>os.Stat\<close>, \<^verbatim>\<open>os.ReadFile\<close>, \<^verbatim>\<open>mime.TypeByExtension\<close> (it consults the
  system's MIME tables), the Unicode case mapping behind \<^verbatim>\<open>strings.ToLower\<close>, the server's
  \<^verbatim>\<open>RequestSampling\<close> with the timeout of the context it is given, in seconds, and the
  \<^verbatim>\<open>%v\<close> rendering of a content value that is not text.
\<close>

datatype stat_result = StatOk | StatNotExist | StatFailed string

record server_env =
  filepath_Abs :: "string \<Rightarrow> string + string"
  os_Stat :: "string \<Rightarrow> stat_result"
  os_ReadFile :: "string \<Rightarrow> string + string"
  mime_TypeByExtension :: "string \<Rightarrow> string"
  unicode_ToLower :: "string \<Rightarrow> string"
  RequestSampling :: "nat \<Rightarrow> CreateMessageRequest \<Rightarrow> string + CreateMessageResult"
  fmt_v :: "Content \<Rightarrow> string"

text \<open>The handler's calls that touch the file system or the peer, in the order made.\<close>

datatype effect = OsStat string | OsReadFile string | SamplingCall nat CreateMessageRequest

definition DEFAULT_FILES_DIR :: string where
  "DEFAULT_FILES_DIR = ''./files''"

definition newline :: string where
  "newline = [CHR 0x0A]"

text \<open>A result with a single text item and \<^verbatim>\<open>IsError: true\<close>, as every failure branch builds.\<close>

definition error_result :: "string \<Rightarrow> CallToolResult" where
  "error_result text = \<lparr>tool_Content = [TextContent ''text'' text], tool_IsError = True\<rparr>"

definition basePrompt :: "string \<Rightarrow> string \<Rightarrow> string" where
  "basePrompt analysisType customPrompt =
     (let base =
            (if analysisType = ''summarize'' then
               ''Please provide a clear and concise summary of this content.''
             else if analysisType = ''explain'' then
               ''Please explain what this content is about and its main purpose.''
             else if analysisType = ''analyze'' then
               ''Please provide a detailed analysis of this content, including its structure, key components, and any notable patterns.''
             else if analysisType = ''extract_key_points'' then
               ''Please extract the key points and main ideas from this content.''
             else ''Please analyze this content and provide insights.'')
      in if customPrompt \<noteq> [] then customPrompt else base)"

text \<open>The three branches on the file type, each giving the payload and the system prompt.\<close>

definition is_text_file :: "string \<Rightarrow> string \<Rightarrow> bool" where
  "is_text_file mimeType ext \<longleftrightarrow>
     strings_HasPrefix mimeType ''text/'' \<or> ext = ''.md'' \<or> ext = ''.txt'' \<or> ext = ''.json''
     \<or> ext = ''.xml'' \<or> ext = ''.csv''"

definition contentForLLM :: "string \<Rightarrow> string \<Rightarrow> string \<Rightarrow> Content" where
  "contentForLLM mimeType ext fileContent =
     (if is_text_file mimeType ext then TextContent ''text'' fileContent
      else if strings_HasPrefix mimeType ''image/'' then
        ImageContent ''image'' (base64_EncodeToString fileContent) mimeType
      else
        TextContent ''text''
          (''This is a binary file ('' @ mimeType @ '') encoded in base64:'' @ newline @ newline
           @ base64_EncodeToString fileContent))"

definition systemPrompt :: "string \<Rightarrow> string \<Rightarrow> string \<Rightarrow> string \<Rightarrow> string" where
  "systemPrompt prompt mimeType ext filename =
     (if is_text_file mimeType ext then
        prompt @ '' The content is a '' @ mimeType @ '' file named '' @ [CHR 0x27] @ filename
        @ [CHR 0x27] @ ''.''
      else if strings_HasPrefix mimeType ''image/'' then
        prompt @ '' The content is an image file named '' @ [CHR 0x27] @ filename @ [CHR 0x27]
        @ '' of type '' @ mimeType @ ''.''
      else
        prompt @ '' The content is a binary file named '' @ [CHR 0x27] @ filename @ [CHR 0x27]
        @ '' of type '' @ mimeType @ '', provided as base64-encoded data.'')"

definition samplingRequest :: "Content \<Rightarrow> string \<Rightarrow> CreateMessageRequest" where
  "samplingRequest content sysPrompt =
     \<lparr>req_Messages = [\<lparr>msg_Role = RoleUser, msg_Content = content\<rparr>],
      req_SystemPrompt = sysPrompt,
      req_MaxTokens = 2000,
      req_Temperature = 3 / 10\<rparr>"

text \<open>The timeout of the sampling context, five minutes, in seconds.\<close>

definition sampling_timeout :: nat where
  "sampling_timeout = 5 * 60"

text \<open>What the handler returns once \<^verbatim>\<open>RequestSampling\<close> has returned.\<close>

definition sampling_reply ::
  "server_env \<Rightarrow> string \<Rightarrow> string \<Rightarrow> string \<Rightarrow> string + CreateMessageResult \<Rightarrow> CallToolResult"
where
  "sampling_reply E filename mimeType analysisType outcome =
     (case outcome of
        Inl err \<Rightarrow> error_result (''Error requesting sampling: '' @ err)
      | Inr result \<Rightarrow>
          (let responseText =
                 (case msg_Content result of
                    TextContent ty text \<Rightarrow> text
                  | other \<Rightarrow> fmt_v E other)
           in \<lparr>tool_Content =
                  [TextContent ''text''
                     (''File Analysis Results'' @ newline @ ''====================='' @ newline
                      @ ''File: '' @ filename @ newline
                      @ ''Type: '' @ mimeType @ newline
                      @ ''Analysis: '' @ analysisType @ newline
                      @ ''Model: '' @ res_Model result @ newline @ newline
                      @ responseText)],
                tool_IsError = False\<rparr>))"

text \<open>
  The handler. It returns the calls it made and either the Go error of
  \<^verbatim>\<open>RequireString\<close> or a tool result.
\<close>

definition analyze_file ::
  "server_env \<Rightarrow> (string \<rightharpoonup> arg_value) \<Rightarrow> effect list \<times> (arg_error + CallToolResult)"
where
  "analyze_file E args =
     (case RequireString args ''filename'' of
        Inl err \<Rightarrow> ([], Inl err)
      | Inr filename \<Rightarrow>
          (let analysisType = GetString args ''analysis_type'' ''summarize'';
               customPrompt = GetString args ''custom_prompt'' [];
               filePath = filepath_Join [DEFAULT_FILES_DIR, filename]
           in case filepath_Abs E filePath of
                Inl err \<Rightarrow> ([], Inr (error_result (''Error resolving file path: '' @ err)))
              | Inr absFilePath \<Rightarrow>
                  (case filepath_Abs E DEFAULT_FILES_DIR of
                     Inl err \<Rightarrow>
                       ([], Inr (error_result (''Error resolving directory path: '' @ err)))
                   | Inr absDirPath \<Rightarrow>
                       if \<not> strings_HasPrefix absFilePath absDirPath then
                         ([], Inr (error_result
                                     ''Access denied: File must be within the files directory''))
                       else if os_Stat E filePath = StatNotExist then
                         ([OsStat filePath], Inr (error_result (''File not found: '' @ filename)))
                       else
                         (case os_ReadFile E filePath of
                            Inl err \<Rightarrow>
                              ([OsStat filePath, OsReadFile filePath],
                               Inr (error_result (''Error reading file: '' @ err)))
                          | Inr fileContent \<Rightarrow>
                              (let ext = strings_ToLower (unicode_ToLower E) (filepath_Ext filename);
                                   mimeType =
                                     (if mime_TypeByExtension E ext = [] then
                                        ''application/octet-stream''
                                      else mime_TypeByExtension E ext);
                                   prompt = basePrompt analysisType customPrompt;
                                   request =
                                     samplingRequest (contentForLLM mimeType ext fileContent)
                                       (systemPrompt prompt mimeType ext filename)
                               in ([OsStat filePath, OsReadFile filePath,
                                    SamplingCall sampling_timeout request],
                                   Inr (sampling_reply E filename mimeType analysisType
                                          (RequestSampling E sampling_timeout request))))))))"

section \<open>The enhanced client: the sampling handler\<close>

text \<open>
  The request and response structures of the LLM backend. A message's content is a list of
  blocks: the handler builds a one-element list holding a text block or an image block.
\<close>

record Source =
  src_Type :: string
  src_MediaType :: string
  src_Data :: string

datatype block = TextBlock string string | ImageBlock string Source

record Message =
  amsg_Role :: string
  amsg_Content :: "block list"

record AnthropicRequest =
  areq_Model :: string
  areq_MaxTokens :: int
  areq_Messages :: "Message list"
  areq_System :: string
  areq_Temperature :: real

record AnthropicTextContent =
  atc_Type :: string
  atc_Text :: string

record AnthropicUsage =
  usage_InputTokens :: int
  usage_OutputTokens :: int

record AnthropicResponse =
  aresp_ID :: string
  aresp_Type :: string
  aresp_Role :: string
  aresp_Content :: "AnthropicTextContent list"
  aresp_Model :: string
  aresp_StopReason :: string
  aresp_StopSequence :: string
  aresp_Usage :: AnthropicUsage

record http_request =
  hreq_Method :: string
  hreq_URL :: string
  hreq_Header :: "string \<rightharpoonup> string"
  hreq_Body :: string

record http_response =
  hresp_StatusCode :: int
  hresp_Body :: string

text \<open>
  What the handler asks of its surroundings: \<^verbatim>\<open>json.Marshal\<close> of the backend request,
  \<^verbatim>\<open>http.NewRequestWithContext\<close> (method, URL, body), the HTTP client's \<^verbatim>\<open>Do\<close>, the JSON
  decoder on the response body, and the \<^verbatim>\<open>%v\<close> rendering of a content value.
\<close>

record client_env =
  json_Marshal :: "AnthropicRequest \<Rightarrow> string + string"
  http_NewRequestWithContext :: "string \<Rightarrow> string \<Rightarrow> string \<Rightarrow> string + http_request"
  http_Do :: "http_request \<Rightarrow> string + http_response"
  json_Decode :: "string \<Rightarrow> string + AnthropicResponse"
  sprint_v :: "Content \<Rightarrow> string"

record AnthropicSamplingHandler =
  APIKey :: string

definition http_StatusOK :: int where
  "http_StatusOK = 200"

definition convert_content :: "client_env \<Rightarrow> Content \<Rightarrow> block list" where
  "convert_content E mcpContent =
     (case mcpContent of
        TextContent ty text \<Rightarrow> [TextBlock ''text'' text]
      | ImageContent ty data mimeType \<Rightarrow>
          [ImageBlock ''image''
             \<lparr>src_Type = ''base64'', src_MediaType = mimeType, src_Data = data\<rparr>]
      | OtherContent x \<Rightarrow> [TextBlock ''text'' (sprint_v E mcpContent)])"

definition convert_message :: "client_env \<Rightarrow> SamplingMessage \<Rightarrow> Message" where
  "convert_message E mcpMsg =
     \<lparr>amsg_Role = (if msg_Role mcpMsg = RoleAssistant then ''assistant'' else ''user''),
      amsg_Content = convert_content E (msg_Content mcpMsg)\<rparr>"

definition anthropicReq :: "client_env \<Rightarrow> CreateMessageRequest \<Rightarrow> AnthropicRequest" where
  "anthropicReq E request =
     \<lparr>areq_Model = ''claude-3-5-sonnet-20241022'',
      areq_MaxTokens = req_MaxTokens request,
      areq_Messages = map (convert_message E) (req_Messages request),
      areq_System = req_SystemPrompt request,
      areq_Temperature = req_Temperature request\<rparr>"

definition set_headers :: "AnthropicSamplingHandler \<Rightarrow> http_request \<Rightarrow> http_request" where
  "set_headers h httpReq =
     httpReq\<lparr>hreq_Header :=
       (hreq_Header httpReq)
         (''Content-Type'' \<mapsto> ''application/json'',
          ''x-api-key'' \<mapsto> APIKey h,
          ''anthropic-version'' \<mapsto> ''2023-06-01'')\<rparr>"

definition responseText :: "AnthropicResponse \<Rightarrow> string" where
  "responseText anthropicResp =
     (case aresp_Content anthropicResp of [] \<Rightarrow> [] | c # cs \<Rightarrow> atc_Text c)"

definition mcp_result :: "AnthropicResponse \<Rightarrow> CreateMessageResult" where
  "mcp_result anthropicResp =
     \<lparr>msg_Role = RoleAssistant,
      msg_Content = TextContent ''text'' (responseText anthropicResp),
      res_Model = aresp_Model anthropicResp,
      res_StopReason = aresp_StopReason anthropicResp\<rparr>"

text \<open>
  \<^verbatim>\<open>CreateMessage\<close> returns a pair, a result pointer and an error, as the Go method does;
  \<open>None\<close> is \<^verbatim>\<open>nil\<close>. The first component of the model's value lists the requests handed to
  the HTTP client.
\<close>

definition CreateMessage ::
  "client_env \<Rightarrow> AnthropicSamplingHandler \<Rightarrow> CreateMessageRequest
     \<Rightarrow> http_request list \<times> (CreateMessageResult option \<times> string option)"
where
  "CreateMessage E h request =
     (if length (req_Messages request) = 0 then ([], (None, Some ''no messages provided''))
      else
        (case json_Marshal E (anthropicReq E request) of
           Inl err \<Rightarrow> ([], (None, Some (''failed to marshal request: '' @ err)))
         | Inr reqBody \<Rightarrow>
             (case http_NewRequestWithContext E ''POST''
                     ''https://api.anthropic.com/v1/messages'' reqBody of
                Inl err \<Rightarrow> ([], (None, Some (''failed to create request: '' @ err)))
              | Inr httpReq0 \<Rightarrow>
                  (let httpReq = set_headers h httpReq0
                   in case http_Do E httpReq of
                        Inl err \<Rightarrow>
                          ([httpReq], (None, Some (''failed to send request: '' @ err)))
                      | Inr resp \<Rightarrow>
                          if hresp_StatusCode resp \<noteq> http_StatusOK then
                            ([httpReq],
                             (None,
                              Some (''API request failed with status ''
                                    @ decimal_int (hresp_StatusCode resp))))
                          else
                            (case json_Decode E (hresp_Body resp) of
                               Inl err \<Rightarrow>
                                 ([httpReq],
                                  (None, Some (''failed to decode response: '' @ err)))
                             | Inr anthropicResp \<Rightarrow>
                                 ([httpReq], (Some (mcp_result anthropicResp), None)))))))"

text \<open>
  The handler of the all-in-one test client answers every request with a fixed reply and
  never fails.
\<close>

definition Simple_CreateMessage ::
  "CreateMessageRequest \<Rightarrow> CreateMessageResult option \<times> string option"
where
  "Simple_CreateMessage request =
     (Some \<lparr>msg_Role = RoleAssistant,
            msg_Content =
              TextContent ''text''
                ''MOCK RESPONSE: This is a summary of the requested file. The sampling workflow is working correctly!'',
            res_Model = ''mock-test-model'',
            res_StopReason = ''endTurn''\<rparr>,
      None)"

section \<open>Concrete surroundings for running the handlers\<close>

text \<open>
  \<^verbatim>\<open>filepath.Abs\<close> on a Unix system whose working directory is \<open>wd\<close>, and the table
  \<^verbatim>\<open>mime.TypeByExtension\<close> falls back to when the system provides none.
\<close>

definition unix_Abs :: "string \<Rightarrow> string \<Rightarrow> string + string" where
  "unix_Abs wd path =
     (if filepath_IsAbs path then Inr (filepath_Clean path) else Inr (filepath_Join [wd, path]))"

definition builtin_mime_types :: "string \<Rightarrow> string" where
  "builtin_mime_types ext =
     (case map_of
        [(''.avif'', ''image/avif''),
         (''.css'', ''text/css; charset=utf-8''),
         (''.gif'', ''image/gif''),
         (''.htm'', ''text/html; charset=utf-8''),
         (''.html'', ''text/html; charset=utf-8''),
         (''.jpeg'', ''image/jpeg''),
         (''.jpg'', ''image/jpeg''),
         (''.js'', ''text/javascript; charset=utf-8''),
         (''.json'', ''application/json''),
         (''.mjs'', ''text/javascript; charset=utf-8''),
         (''.pdf'', ''application/pdf''),
         (''.png'', ''image/png''),
         (''.svg'', ''image/svg+xml''),
         (''.wasm'', ''application/wasm''),
         (''.webp'', ''image/webp''),
         (''.xml'', ''text/xml; charset=utf-8'')] ext of
        Some t \<Rightarrow> t
      | None \<Rightarrow> [])"

text \<open>
  A files directory with four regular files, under the working directory \<^verbatim>\<open>/srv/mcp\<close>.
  A path that runs through one of the files fails with \<^verbatim>\<open>ENOTDIR\<close>, which is not an
  \<^verbatim>\<open>os.IsNotExist\<close> error; the directory itself can be inspected but not read as a file.
\<close>

definition demo_files :: "string \<rightharpoonup> string" where
  "demo_files =
     [''files/notes.txt'' \<mapsto> ''hello'',
      ''files/data.json'' \<mapsto> ''{}'',
      ''files/dot.png'' \<mapsto> ''PNG'',
      ''files/tool.wasm'' \<mapsto> ''asm'']"

definition demo_under_file :: "string \<Rightarrow> bool" where
  "demo_under_file p =
     list_ex (\<lambda>f. prefix (f @ ''/'') p)
       [''files/notes.txt'', ''files/data.json'', ''files/dot.png'', ''files/tool.wasm'']"

definition demo_Stat :: "string \<Rightarrow> stat_result" where
  "demo_Stat p =
     (if demo_files p \<noteq> None \<or> p = ''files'' then StatOk
      else if demo_under_file p then StatFailed (''stat '' @ p @ '': not a directory'')
      else StatNotExist)"

definition demo_ReadFile :: "string \<Rightarrow> string + string" where
  "demo_ReadFile p =
     (case demo_files p of
        Some c \<Rightarrow> Inr c
      | None \<Rightarrow>
          if p = ''files'' then Inl (''read '' @ p @ '': is a directory'')
          else if demo_under_file p then Inl (''open '' @ p @ '': not a directory'')
          else Inl (''open '' @ p @ '': no such file or directory''))"

definition demo_server ::
  "(nat \<Rightarrow> CreateMessageRequest \<Rightarrow> string + CreateMessageResult) \<Rightarrow> server_env"
where
  "demo_server sampling =
     \<lparr>filepath_Abs = unix_Abs ''/srv/mcp'',
      os_Stat = demo_Stat,
      os_ReadFile = demo_ReadFile,
      mime_TypeByExtension = builtin_mime_types,
      unicode_ToLower = map lower_byte,
      RequestSampling = sampling,
      fmt_v = (\<lambda>c. ''{}'')\<rparr>"

definition demo_args :: "string \<Rightarrow> (string \<rightharpoonup> arg_value)" where
  "demo_args filename = [''filename'' \<mapsto> StringArg filename]"

text \<open>A peer that never answers in time, and a peer that answers.\<close>

definition sampling_fails :: "nat \<Rightarrow> CreateMessageRequest \<Rightarrow> string + CreateMessageResult" where
  "sampling_fails t request = Inl ''context deadline exceeded''"

definition sampling_answers :: "nat \<Rightarrow> CreateMessageRequest \<Rightarrow> string + CreateMessageResult" where
  "sampling_answers t request =
     Inr \<lparr>msg_Role = RoleAssistant, msg_Content = TextContent ''text'' ''ok'',
          res_Model = ''m1'', res_StopReason = ''endTurn''\<rparr>"

text \<open>A backend that answers every request with the given status and a fixed message.\<close>

definition demo_response :: AnthropicResponse where
  "demo_response =
     \<lparr>aresp_ID = ''msg_1'', aresp_Type = ''message'', aresp_Role = ''assistant'',
      aresp_Content = [\<lparr>atc_Type = ''text'', atc_Text = ''ok''\<rparr>],
      aresp_Model = ''m1'', aresp_StopReason = ''end_turn'', aresp_StopSequence = [],
      aresp_Usage = \<lparr>usage_InputTokens = 3, usage_OutputTokens = 1\<rparr>\<rparr>"

definition demo_client :: "int \<Rightarrow> client_env" where
  "demo_client status =
     \<lparr>json_Marshal = (\<lambda>r. Inr ''{}''),
      http_NewRequestWithContext =
        (\<lambda>method url body.
           Inr \<lparr>hreq_Method = method, hreq_URL = url, hreq_Header = Map.empty,
                hreq_Body = body\<rparr>),
      http_Do = (\<lambda>r. Inr \<lparr>hresp_StatusCode = status, hresp_Body = ''{}''\<rparr>),
      json_Decode = (\<lambda>b. Inr demo_response),
      sprint_v = (\<lambda>c. ''{}'')\<rparr>"

definition demo_handler :: AnthropicSamplingHandler where
  "demo_handler = \<lparr>APIKey = ''key''\<rparr>"

definition demo_request :: "SamplingMessage list \<Rightarrow> CreateMessageRequest" where
  "demo_request msgs =
     \<lparr>req_Messages = msgs, req_SystemPrompt = ''Summarize.'', req_MaxTokens = 2000,
      req_Temperature = 3 / 10\<rparr>"

definition demo_notes_request :: CreateMessageRequest where
  "demo_notes_request =
     samplingRequest (TextContent ''text'' ''hello'')
       (''Please provide a clear and concise summary of this content.''
        @ '' The content is a application/octet-stream file named '' @ [CHR 0x27]
        @ ''notes.txt'' @ [CHR 0x27] @ ''.'')"

section \<open>The correlation layer between the two handlers\<close>

text \<open>
  The tool handler reaches the sampling handler through \<^verbatim>\<open>RequestSampling\<close> of the MCP
  library's server and through the dispatch of the library's client. Neither is among the
  repository's sources, so this section models them from the specification: the envelopes
  and their codec, the session with its pending request table, and the operations on it.
  Time is a logical clock that the \<open>Tick\<close> event advances by one unit.
\<close>

text \<open>
  Modelled from the spec: the wire representation of a frame, one JSON object per frame
  (section 6); the library's JSON encoding is missing from the sources.
\<close>

datatype json = JString string | JNumber real | JObject "(string \<times> json) list"

text \<open>
  Modelled from the spec: the Request Envelope of the data model (section 3), whose
  declaration is in the library: identifier, method name, structured payload, numeric
  parameters and optional system instruction.
\<close>

record request_envelope =
  env_id :: nat
  env_method :: string
  env_content :: Content
  env_systemPrompt :: "string option"
  env_maxTokens :: int
  env_temperature :: real

text \<open>
  Modelled from the spec: the failure kinds reported to the caller of \<open>send\<close> (section 6);
  the library's error values are missing from the sources.
\<close>

datatype failure = Timeout | CapabilityNotSupported | SessionClosed | HandlerError string

text \<open>
  Modelled from the spec: the Response Envelope (section 3): the identifier and a success
  payload or a failure payload; its declaration is in the library. Both payloads are
  optional fields, as on the wire, so that an envelope can be malformed.
\<close>

record response_envelope =
  resp_id :: nat
  resp_result :: "CreateMessageResult option"
  resp_error :: "failure option"

text \<open>
  Modelled from the spec: the encoder of the Envelope Codec for the push frame
  \<^verbatim>\<open>{id, method, params: {content: {type, ...}, systemPrompt, maxTokens, temperature}}\<close>
  (section 6); the codec is library code. A payload that is neither text nor image has no
  wire form in the spec.
\<close>

definition encode_content :: "Content \<Rightarrow> json option" where
  "encode_content c =
     (case c of
        TextContent ty text \<Rightarrow> Some (JObject [(''type'', JString ty), (''text'', JString text)])
      | ImageContent ty data mimeType \<Rightarrow>
          Some (JObject [(''type'', JString ty), (''data'', JString data),
                         (''mimeType'', JString mimeType)])
      | OtherContent x \<Rightarrow> None)"

text \<open>
  Modelled from the spec: the encoder of a whole Request Envelope (section 6); an absent
  system instruction leaves its field out.
\<close>

definition encode_request :: "request_envelope \<Rightarrow> json option" where
  "encode_request e =
     (case encode_content (env_content e) of
        None \<Rightarrow> None
      | Some content \<Rightarrow>
          Some (JObject
            [(''id'', JNumber (of_nat (env_id e))),
             (''method'', JString (env_method e)),
             (''params'',
              JObject
                ([(''content'', content)]
                 @ (case env_systemPrompt e of
                      None \<Rightarrow> []
                    | Some p \<Rightarrow> [(''systemPrompt'', JString p)])
                 @ [(''maxTokens'', JNumber (of_int (env_maxTokens e))),
                    (''temperature'', JNumber (env_temperature e))]))]))"

text \<open>
  Modelled from the spec: reading the fields of a decoded JSON object; part of the codec.
\<close>

definition field :: "json \<Rightarrow> string \<Rightarrow> json option" where
  "field j name = (case j of JObject fs \<Rightarrow> map_of fs name | _ \<Rightarrow> None)"

text \<open>Modelled from the spec: a string field of a frame; part of the codec.\<close>

definition string_field :: "json \<Rightarrow> string \<Rightarrow> string option" where
  "string_field j name = (case field j name of Some (JString s) \<Rightarrow> Some s | _ \<Rightarrow> None)"

text \<open>Modelled from the spec: an integer field of a frame; part of the codec.\<close>

definition int_field :: "json \<Rightarrow> string \<Rightarrow> int option" where
  "int_field j name =
     (case field j name of
        Some (JNumber r) \<Rightarrow> if of_int \<lfloor>r\<rfloor> = r then Some \<lfloor>r\<rfloor> else None
      | _ \<Rightarrow> None)"

text \<open>Modelled from the spec: a numeric field of a frame; part of the codec.\<close>

definition number_field :: "json \<Rightarrow> string \<Rightarrow> real option" where
  "number_field j name = (case field j name of Some (JNumber r) \<Rightarrow> Some r | _ \<Rightarrow> None)"

text \<open>
  Modelled from the spec: the decoder of the payload, which dispatches on the type tag
  \<^verbatim>\<open>"text"|"image"\<close> (section 6); any other frame is malformed.
\<close>

definition decode_content :: "json \<Rightarrow> Content option" where
  "decode_content j =
     (case string_field j ''type'' of
        None \<Rightarrow> None
      | Some ty \<Rightarrow>
          if ty = ''text'' then
            (case string_field j ''text'' of
               None \<Rightarrow> None
             | Some text \<Rightarrow> Some (TextContent ty text))
          else if ty = ''image'' then
            (case (string_field j ''data'', string_field j ''mimeType'') of
               (Some data, Some mimeType) \<Rightarrow> Some (ImageContent ty data mimeType)
             | _ \<Rightarrow> None)
          else None)"

text \<open>
  Modelled from the spec: the decoder of a whole Request Envelope (section 6); a frame
  with a missing or ill-typed field is malformed and yields nothing.
\<close>

definition decode_request :: "json \<Rightarrow> request_envelope option" where
  "decode_request j =
     (case (int_field j ''id'', string_field j ''method'', field j ''params'') of
        (Some i, Some m, Some params) \<Rightarrow>
          (case (decode_content (case field params ''content'' of Some c \<Rightarrow> c | None \<Rightarrow> JObject []),
                 int_field params ''maxTokens'', number_field params ''temperature'') of
             (Some content, Some maxTokens, Some temperature) \<Rightarrow>
               if i < 0 then None
               else
                 Some \<lparr>env_id = nat i, env_method = m, env_content = content,
                       env_systemPrompt = string_field params ''systemPrompt'',
                       env_maxTokens = maxTokens, env_temperature = temperature\<rparr>
           | _ \<Rightarrow> None)
      | _ \<Rightarrow> None)"

text \<open>
  Modelled from the spec: the Response Delivery Path on the responder's side (sections 4.4
  and 4.5): after the handler has returned, build the Response Envelope that carries the
  original identifier. The handler's return value is the pair of the Go method; an error
  becomes the failure payload \<open>HandlerError\<close> with the error's message.
\<close>

definition build_response ::
  "nat \<Rightarrow> CreateMessageResult option \<times> string option \<Rightarrow> response_envelope"
where
  "build_response i returned =
     (case snd returned of
        Some message \<Rightarrow>
          \<lparr>resp_id = i, resp_result = None, resp_error = Some (HandlerError message)\<rparr>
      | None \<Rightarrow> \<lparr>resp_id = i, resp_result = fst returned, resp_error = None\<rparr>)"

text \<open>
  Modelled from the spec: what a Response Envelope resolves its request with, when exactly
  one of its two payloads is populated (section 3); otherwise the envelope is malformed.
\<close>

definition response_outcome :: "response_envelope \<Rightarrow> (failure + CreateMessageResult) option" where
  "response_outcome r =
     (case (resp_result r, resp_error r) of
        (Some result, None) \<Rightarrow> Some (Inr result)
      | (None, Some f) \<Rightarrow> Some (Inl f)
      | _ \<Rightarrow> None)"

text \<open>Modelled from the spec: the session's lifecycle states (section 4.1).\<close>

datatype session_state = Connecting | Negotiating | Active | Draining | Closed

text \<open>
  Modelled from the spec: the Pending Entry (section 3): request identifier, deadline and
  owning session. Its completion slot is the request's place in the session's list of
  resolutions.
\<close>

record pending_entry =
  pe_id :: nat
  pe_deadline :: nat
  pe_session :: nat

text \<open>
  Modelled from the spec: the Session of the initiator (sections 3 and 4.3) with its
  identifier, state, the peer's negotiated push capability, creation time and clock, the
  next request identifier, the Pending Request Table, the frames written to the push
  channel, the resolutions delivered to the callers of \<open>send\<close>, oldest first, and the
  diagnostic counter of discarded responses.
\<close>

record session =
  sess_id :: nat
  sess_state :: session_state
  supportsSamplingPush :: bool
  created :: nat
  clock :: nat
  next_id :: nat
  pending :: "pending_entry list"
  pushed :: "request_envelope list"
  resolved :: "(nat \<times> (failure + CreateMessageResult)) list"
  discarded :: nat

text \<open>Modelled from the spec: a session as the transport layer creates it (section 3).\<close>

definition new_session :: "nat \<Rightarrow> nat \<Rightarrow> session" where
  "new_session sid now =
     \<lparr>sess_id = sid, sess_state = Connecting, supportsSamplingPush = False, created = now,
      clock = now, next_id = 0, pending = [], pushed = [], resolved = [], discarded = 0\<rparr>"

text \<open>Modelled from the spec: the identifiers in the Pending Request Table.\<close>

definition pending_ids :: "session \<Rightarrow> nat list" where
  "pending_ids s = map pe_id (pending s)"

text \<open>Modelled from the spec: the identifiers of the requests sent on the push channel.\<close>

definition sent_ids :: "session \<Rightarrow> nat list" where
  "sent_ids s = map env_id (pushed s)"

text \<open>Modelled from the spec: the identifiers of the requests that have been resolved.\<close>

definition resolved_ids :: "session \<Rightarrow> nat list" where
  "resolved_ids s = map fst (resolved s)"

text \<open>
  Modelled from the spec: what the caller of \<open>send\<close> for a request has received, if
  anything yet: the first resolution of the identifier.
\<close>

definition outcome :: "session \<Rightarrow> nat \<Rightarrow> (failure + CreateMessageResult) option" where
  "outcome s i = map_of (resolved s) i"

text \<open>
  Modelled from the spec: \<open>send\<close> (sections 4.1 and 4.3). Without the peer's push
  capability it fails at once with \<open>CapabilityNotSupported\<close>; on a session that is not
  active it fails with \<open>SessionClosed\<close>; otherwise it assigns the next identifier,
  registers the Pending Entry with its deadline and writes the envelope to the push
  channel. It returns the failure, or the identifier whose resolution the caller awaits.
\<close>

definition send :: "session \<Rightarrow> request_envelope \<Rightarrow> nat \<Rightarrow> (failure + nat) \<times> session" where
  "send s envelope timeout =
     (if \<not> supportsSamplingPush s then (Inl CapabilityNotSupported, s)
      else if sess_state s \<noteq> Active then (Inl SessionClosed, s)
      else
        (Inr (next_id s),
         s\<lparr>next_id := next_id s + 1,
           pending :=
             pending s
             @ [\<lparr>pe_id = next_id s, pe_deadline = clock s + timeout, pe_session = sess_id s\<rparr>],
           pushed := pushed s @ [envelope\<lparr>env_id := next_id s\<rparr>]\<rparr>))"

text \<open>
  Modelled from the spec: receipt of a Response Envelope addressed to session \<open>sid\<close>
  (section 4.3). A malformed envelope is dropped. An identifier that is not pending, or a
  wrong session, discards the response and counts it. Otherwise the slot is fulfilled with
  the envelope's payload or failure and the entry is removed.
\<close>

definition receive :: "session \<Rightarrow> nat \<Rightarrow> response_envelope \<Rightarrow> session" where
  "receive s sid r =
     (case response_outcome r of
        None \<Rightarrow> s
      | Some out \<Rightarrow>
          if sid = sess_id s \<and> resp_id r \<in> set (pending_ids s) then
            s\<lparr>pending := filter (\<lambda>e. pe_id e \<noteq> resp_id r) (pending s),
              resolved := resolved s @ [(resp_id r, out)]\<rparr>
          else s\<lparr>discarded := discarded s + 1\<rparr>)"

text \<open>
  Modelled from the spec: the passing of one unit of time (section 4.3): every entry whose
  deadline has been reached is removed and its caller receives \<open>Timeout\<close>.
\<close>

definition tick :: "session \<Rightarrow> session" where
  "tick s =
     (let now = clock s + 1
      in s\<lparr>clock := now,
           pending := filter (\<lambda>e. now < pe_deadline e) (pending s),
           resolved :=
             resolved s
             @ map (\<lambda>e. (pe_id e, Inl Timeout))
                 (filter (\<lambda>e. \<not> now < pe_deadline e) (pending s))\<rparr>)"

text \<open>
  Modelled from the spec: the close request or fatal transport error (section 4.1): an
  active session starts draining and all its pending entries are resolved with
  \<open>SessionClosed\<close>.
\<close>

definition close :: "session \<Rightarrow> session" where
  "close s =
     (if sess_state s = Active then
        s\<lparr>sess_state := Draining,
          pending := [],
          resolved := resolved s @ map (\<lambda>e. (pe_id e, Inl SessionClosed)) (pending s)\<rparr>
      else s)"

text \<open>Modelled from the spec: what can happen to a session (sections 4.1 and 4.3).\<close>

datatype event =
    Connected
  | Negotiated bool
  | Send request_envelope nat
  | Response nat response_envelope
  | Tick
  | CloseRequest
  | Drained

text \<open>
  Modelled from the spec: one step of the session's state machine (section 4.1); an event
  that the current state does not admit changes nothing.
\<close>

fun step :: "session \<Rightarrow> event \<Rightarrow> session" where
  "step s Connected =
     (if sess_state s = Connecting then s\<lparr>sess_state := Negotiating\<rparr> else s)"
| "step s (Negotiated capable) =
     (if sess_state s = Negotiating then
        s\<lparr>sess_state := Active, supportsSamplingPush := capable\<rparr>
      else s)"
| "step s (Send envelope timeout) = snd (send s envelope timeout)"
| "step s (Response sid r) = receive s sid r"
| "step s Tick = tick s"
| "step s CloseRequest = close s"
| "step s Drained = (if sess_state s = Draining then s\<lparr>sess_state := Closed\<rparr> else s)"

text \<open>Modelled from the spec: a session's history, the events applied in order.\<close>

definition run :: "session \<Rightarrow> event list \<Rightarrow> session" where
  "run s evs = foldl step s evs"

text \<open>
  Modelled from the spec: the data model's invariant on the Pending Request Table and the
  single assignment of completion slots (sections 3 and 5), as a check on a session:
  identifiers are issued in increasing order, the pending and the resolved identifiers are
  each without repetition, disjoint, and together the identifiers sent; no pending entry's
  deadline has passed.
\<close>

definition table_ok :: "session \<Rightarrow> bool" where
  "table_ok s \<longleftrightarrow>
     sent_ids s = [0..<next_id s] \<and>
     distinct (pending_ids s) \<and>
     distinct (resolved_ids s) \<and>
     set (pending_ids s) \<inter> set (resolved_ids s) = {} \<and>
     set (pending_ids s) \<union> set (resolved_ids s) = set (sent_ids s) \<and>
     list_all (\<lambda>e. clock s \<le> pe_deadline e \<and> pe_session e = sess_id s) (pending s)"

section \<open>A concrete session\<close>

text \<open>
  A session whose peer declared the push capability (or did not), a request envelope, and
  the response of the specification's scenario: content \<^verbatim>\<open>ok\<close> from model \<^verbatim>\<open>m1\<close>.
\<close>

definition demo_session :: "bool \<Rightarrow> session" where
  "demo_session capable = run (new_session 1 0) [Connected, Negotiated capable]"

definition demo_envelope :: request_envelope where
  "demo_envelope =
     \<lparr>env_id = 0, env_method = ''sampling/createMessage'',
      env_content = TextContent ''text'' ''hello'', env_systemPrompt = Some ''Summarize.'',
      env_maxTokens = 2000, env_temperature = 3 / 10\<rparr>"

definition demo_result :: CreateMessageResult where
  "demo_result =
     \<lparr>msg_Role = RoleAssistant, msg_Content = TextContent ''text'' ''ok'',
      res_Model = ''m1'', res_StopReason = ''endTurn''\<rparr>"

definition demo_reply :: "nat \<Rightarrow> response_envelope" where
  "demo_reply i = \<lparr>resp_id = i, resp_result = Some demo_result, resp_error = None\<rparr>"

section \<open>The payload rule as the specification words it\<close>

text \<open>
  The specification's reading of the choice of payload, by the MIME type alone: text for
  a text type, image with the MIME type for an image type, base64 with a description for
  every other file. It is compared with \<open>contentForLLM\<close> below.
\<close>

definition payload_by_mime_type :: "string \<Rightarrow> string \<Rightarrow> Content" where
  "payload_by_mime_type mimeType fileContent =
     (if prefix ''text/'' mimeType then TextContent ''text'' fileContent
      else if prefix ''image/'' mimeType then
        ImageContent ''image'' (base64_EncodeToString fileContent) mimeType
      else
        TextContent ''text''
          (''This is a binary file ('' @ mimeType @ '') encoded in base64:'' @ newline @ newline
           @ base64_EncodeToString fileContent))"

definition demo_json_request :: CreateMessageRequest where
  "demo_json_request =
     samplingRequest (TextContent ''text'' ''{}'')
       (''Please provide a clear and concise summary of this content.''
        @ '' The content is a application/json file named '' @ [CHR 0x27]
        @ ''data.json'' @ [CHR 0x27] @ ''.'')"

section \<open>Properties of the \<^verbatim>\<open>analyze_file\<close> handler\<close>

text \<open>
  A run that reaches the sampling call has read the file and built the request from the
  file's content, its extension and its MIME type; the handler's result is then decided
  by what \<^verbatim>\<open>RequestSampling\<close> returns.
\<close>

lemma SamplingCall_request:
  assumes "SamplingCall t request \<in> set (fst (analyze_file E args))"
  obtains filename fileContent where
    "RequireString args ''filename'' = Inr filename"
    "os_ReadFile E (filepath_Join [DEFAULT_FILES_DIR, filename]) = Inr fileContent"
    "t = sampling_timeout"
    "request =
       samplingRequest
         (contentForLLM
            (if mime_TypeByExtension E (strings_ToLower (unicode_ToLower E) (filepath_Ext filename)) = []
             then ''application/octet-stream''
             else mime_TypeByExtension E (strings_ToLower (unicode_ToLower E) (filepath_Ext filename)))
            (strings_ToLower (unicode_ToLower E) (filepath_Ext filename)) fileContent)
         (systemPrompt
            (basePrompt (GetString args ''analysis_type'' ''summarize'')
               (GetString args ''custom_prompt'' []))
            (if mime_TypeByExtension E (strings_ToLower (unicode_ToLower E) (filepath_Ext filename)) = []
             then ''application/octet-stream''
             else mime_TypeByExtension E (strings_ToLower (unicode_ToLower E) (filepath_Ext filename)))
            (strings_ToLower (unicode_ToLower E) (filepath_Ext filename)) filename)"
    "snd (analyze_file E args) =
       Inr (sampling_reply E filename
              (if mime_TypeByExtension E (strings_ToLower (unicode_ToLower E) (filepath_Ext filename)) = []
               then ''application/octet-stream''
               else mime_TypeByExtension E (strings_ToLower (unicode_ToLower E) (filepath_Ext filename)))
              (GetString args ''analysis_type'' ''summarize'')
              (RequestSampling E sampling_timeout request))"
  using assms unfolding analyze_file_def Let_def
  by (auto split: sum.splits if_splits)

lemmas demo_server_simps =
  analyze_file_def demo_server_def demo_args_def RequireString_def GetString_def
  DEFAULT_FILES_DIR_def filepath_Clean_def filepath_IsAbs_def strings_HasPrefix_def
  unix_Abs_def demo_files_def demo_Stat_def demo_ReadFile_def demo_under_file_def
  filepath_Ext_def strings_ToLower_def isASCII_def lower_byte_def
  builtin_mime_types_def basePrompt_def contentForLLM_def systemPrompt_def is_text_file_def
  sampling_timeout_def Let_def

lemma demo_notes_trace:
  "fst (analyze_file (demo_server sampling) (demo_args ''notes.txt'')) =
     [OsStat ''files/notes.txt'', OsReadFile ''files/notes.txt'',
      SamplingCall 300 demo_notes_request]"
  by (simp add: demo_server_simps demo_notes_request_def)

text \<open>
  C8. Every sampling request that \<^verbatim>\<open>analyze_file\<close> hands to \<^verbatim>\<open>RequestSampling\<close> carries
  the two numeric parameters: a maximal output length of 2000 tokens and the temperature
  0.3, which lies in the interval from 0 to 1.
\<close>

theorem analyze_file_numeric_parameters:
  "SamplingCall t request \<in> set (fst (analyze_file E args)) \<Longrightarrow>
     req_MaxTokens request = 2000 \<and> req_Temperature request = 3 / 10 \<and>
     0 \<le> req_Temperature request \<and> req_Temperature request \<le> 1"
  by (erule SamplingCall_request) (simp add: samplingRequest_def)

theorem analyze_file_numeric_parameters_witness:
  "SamplingCall 300 demo_notes_request
     \<in> set (fst (analyze_file (demo_server sampling_fails) (demo_args ''notes.txt''))) \<and>
   req_MaxTokens demo_notes_request = 2000 \<and> req_Temperature demo_notes_request = 3 / 10 \<and>
   0 \<le> req_Temperature demo_notes_request \<and> req_Temperature demo_notes_request \<le> 1"
  using analyze_file_numeric_parameters
    [of 300 demo_notes_request "demo_server sampling_fails" "demo_args ''notes.txt''"]
  by (simp add: demo_notes_trace)

lemma OsReadFile_guard:
  assumes "OsReadFile path \<in> set (fst (analyze_file E args))"
  obtains filename absFilePath absDirPath where
    "RequireString args ''filename'' = Inr filename"
    "path = filepath_Join [DEFAULT_FILES_DIR, filename]"
    "filepath_Abs E path = Inr absFilePath"
    "filepath_Abs E DEFAULT_FILES_DIR = Inr absDirPath"
    "prefix absDirPath absFilePath"
    "os_Stat E path \<noteq> StatNotExist"
  using assms unfolding analyze_file_def Let_def strings_HasPrefix_def
  by (auto split: sum.splits if_splits)

lemma demo_json_trace:
  "fst (analyze_file (demo_server sampling) (demo_args ''data.json'')) =
     [OsStat ''files/data.json'', OsReadFile ''files/data.json'',
      SamplingCall 300 demo_json_request]"
  by (simp add: demo_server_simps demo_json_request_def)

text \<open>
  C9, amended. When the absolute path of the requested file does not begin with the
  absolute path of the files directory, as strings, \<^verbatim>\<open>analyze_file\<close> returns the error
  result \<^verbatim>\<open>Access denied\<close> and has made no call to the file system. Conversely, whenever
  the handler calls \<^verbatim>\<open>os.ReadFile\<close>, it does so on the joined path of the requested file,
  the prefix check has passed and \<^verbatim>\<open>os.Stat\<close> has not reported the file as missing; this
  is less than the file's existence, since \<^verbatim>\<open>os.Stat\<close> can fail in other ways.
\<close>

theorem analyze_file_access_denied:
  "(RequireString args ''filename'' = Inr filename \<and>
    filepath_Abs E (filepath_Join [DEFAULT_FILES_DIR, filename]) = Inr absFilePath \<and>
    filepath_Abs E DEFAULT_FILES_DIR = Inr absDirPath \<and>
    \<not> prefix absDirPath absFilePath
    \<longrightarrow> analyze_file E args =
          ([], Inr (error_result ''Access denied: File must be within the files directory'')))
   \<and>
   (OsReadFile path \<in> set (fst (analyze_file E args))
    \<longrightarrow> (\<exists>filename absFilePath absDirPath.
           RequireString args ''filename'' = Inr filename \<and>
           path = filepath_Join [DEFAULT_FILES_DIR, filename] \<and>
           filepath_Abs E path = Inr absFilePath \<and>
           filepath_Abs E DEFAULT_FILES_DIR = Inr absDirPath \<and>
           prefix absDirPath absFilePath \<and>
           os_Stat E path \<noteq> StatNotExist))"
proof (intro conjI impI)
  assume "RequireString args ''filename'' = Inr filename \<and>
    filepath_Abs E (filepath_Join [DEFAULT_FILES_DIR, filename]) = Inr absFilePath \<and>
    filepath_Abs E DEFAULT_FILES_DIR = Inr absDirPath \<and>
    \<not> prefix absDirPath absFilePath"
  then show "analyze_file E args =
          ([], Inr (error_result ''Access denied: File must be within the files directory''))"
    by (simp add: analyze_file_def Let_def strings_HasPrefix_def)
next
  assume "OsReadFile path \<in> set (fst (analyze_file E args))"
  then show "\<exists>filename absFilePath absDirPath.
           RequireString args ''filename'' = Inr filename \<and>
           path = filepath_Join [DEFAULT_FILES_DIR, filename] \<and>
           filepath_Abs E path = Inr absFilePath \<and>
           filepath_Abs E DEFAULT_FILES_DIR = Inr absDirPath \<and>
           prefix absDirPath absFilePath \<and>
           os_Stat E path \<noteq> StatNotExist"
    by (elim OsReadFile_guard) blast
qed

lemma demo_passwd_paths:
  "RequireString (demo_args ''../etc/passwd'') ''filename'' = Inr ''../etc/passwd''"
  "filepath_Join [DEFAULT_FILES_DIR, ''../etc/passwd''] = ''etc/passwd''"
  "filepath_Abs (demo_server sampling) ''etc/passwd'' = Inr ''/srv/mcp/etc/passwd''"
  "filepath_Abs (demo_server sampling) DEFAULT_FILES_DIR = Inr ''/srv/mcp/files''"
  by (simp_all add: demo_server_simps)

theorem analyze_file_access_denied_witness:
  "RequireString (demo_args ''../etc/passwd'') ''filename'' = Inr ''../etc/passwd'' \<and>
   filepath_Abs (demo_server sampling_answers) (filepath_Join [DEFAULT_FILES_DIR, ''../etc/passwd''])
     = Inr ''/srv/mcp/etc/passwd'' \<and>
   filepath_Abs (demo_server sampling_answers) DEFAULT_FILES_DIR = Inr ''/srv/mcp/files'' \<and>
   \<not> prefix ''/srv/mcp/files'' ''/srv/mcp/etc/passwd'' \<and>
   analyze_file (demo_server sampling_answers) (demo_args ''../etc/passwd'') =
     ([], Inr (error_result ''Access denied: File must be within the files directory'')) \<and>
   OsReadFile ''files/notes.txt''
     \<in> set (fst (analyze_file (demo_server sampling_answers) (demo_args ''notes.txt''))) \<and>
   (\<exists>filename absFilePath absDirPath.
      RequireString (demo_args ''notes.txt'') ''filename'' = Inr filename \<and>
      ''files/notes.txt'' = filepath_Join [DEFAULT_FILES_DIR, filename] \<and>
      filepath_Abs (demo_server sampling_answers) ''files/notes.txt'' = Inr absFilePath \<and>
      filepath_Abs (demo_server sampling_answers) DEFAULT_FILES_DIR = Inr absDirPath \<and>
      prefix absDirPath absFilePath \<and>
      os_Stat (demo_server sampling_answers) ''files/notes.txt'' \<noteq> StatNotExist)"
proof -
  have denied: "\<not> prefix ''/srv/mcp/files'' ''/srv/mcp/etc/passwd''"
    by simp
  have read: "OsReadFile ''files/notes.txt''
     \<in> set (fst (analyze_file (demo_server sampling_answers) (demo_args ''notes.txt'')))"
    by (simp add: demo_notes_trace)
  show ?thesis
    using analyze_file_access_denied
            [of "demo_args ''../etc/passwd''" "''../etc/passwd''" "demo_server sampling_answers"
                "''/srv/mcp/etc/passwd''" "''/srv/mcp/files''" "''files/notes.txt''"]
          analyze_file_access_denied
            [of "demo_args ''notes.txt''" "''notes.txt''" "demo_server sampling_answers"
                "''/srv/mcp/notes''" "''/srv/mcp/files''" "''files/notes.txt''"]
          denied read
    by (simp only: demo_passwd_paths) blast
qed

text \<open>
  C9, as the claim words it, fails in its last part: a file can be handed to
  \<^verbatim>\<open>os.ReadFile\<close> although it does not exist. The handler only asks whether the error of
  \<^verbatim>\<open>os.Stat\<close> is a not-exist error. For the file name \<^verbatim>\<open>notes.txt/x\<close>, where
  \<^verbatim>\<open>notes.txt\<close> is a regular file, there is no such file, \<^verbatim>\<open>os.Stat\<close> fails with
  \<^verbatim>\<open>ENOTDIR\<close>, and the handler goes on to call \<^verbatim>\<open>os.ReadFile\<close>, whose error it reports.
\<close>

theorem read_attempted_on_missing_file_counterexample:
  "demo_files ''files/notes.txt/x'' = None \<and>
   prefix ''/srv/mcp/files'' ''/srv/mcp/files/notes.txt/x'' \<and>
   filepath_Abs (demo_server sampling_answers) ''files/notes.txt/x''
     = Inr ''/srv/mcp/files/notes.txt/x'' \<and>
   os_Stat (demo_server sampling_answers) ''files/notes.txt/x''
     = StatFailed ''stat files/notes.txt/x: not a directory'' \<and>
   os_ReadFile (demo_server sampling_answers) ''files/notes.txt/x''
     = Inl ''open files/notes.txt/x: not a directory'' \<and>
   analyze_file (demo_server sampling_answers) (demo_args ''notes.txt/x'') =
     ([OsStat ''files/notes.txt/x'', OsReadFile ''files/notes.txt/x''],
      Inr (error_result ''Error reading file: open files/notes.txt/x: not a directory''))"
  by (simp add: demo_server_simps)

text \<open>
  C5, as the claim words it, fails: the payload is not chosen by the MIME type alone. The
  file \<^verbatim>\<open>data.json\<close> has the MIME type \<^verbatim>\<open>application/json\<close>, which is neither a text
  nor an image type, and yet its content is sent as plain text, not as base64 with a
  description.
\<close>

theorem payload_by_mime_type_counterexample:
  "mime_TypeByExtension (demo_server sampling_answers) ''.json'' = ''application/json'' \<and>
   fst (analyze_file (demo_server sampling_answers) (demo_args ''data.json'')) =
     [OsStat ''files/data.json'', OsReadFile ''files/data.json'',
      SamplingCall 300 demo_json_request] \<and>
   req_Messages demo_json_request =
     [\<lparr>msg_Role = RoleUser, msg_Content = TextContent ''text'' ''{}''\<rparr>] \<and>
   payload_by_mime_type ''application/json'' ''{}'' =
     TextContent ''text''
       (''This is a binary file (application/json) encoded in base64:'' @ newline @ newline
        @ ''e30='') \<and>
   contentForLLM ''application/json'' ''.json'' ''{}'' = TextContent ''text'' ''{}'' \<and>
   contentForLLM ''application/json'' ''.json'' ''{}''
     \<noteq> payload_by_mime_type ''application/json'' ''{}''"
  by (simp add: demo_json_trace)
     (simp add: demo_server_def builtin_mime_types_def demo_json_request_def samplingRequest_def
        payload_by_mime_type_def contentForLLM_def is_text_file_def strings_HasPrefix_def
        base64_digit_def base64_alphabet_def)

text \<open>
  C5, amended. The payload of every sampling request that \<^verbatim>\<open>analyze_file\<close> makes is
  exactly one of three variants of the file's content: the text variant when the MIME
  type begins with \<^verbatim>\<open>text/\<close> or the lower-cased extension is one of \<^verbatim>\<open>.md\<close>, \<^verbatim>\<open>.txt\<close>,
  \<^verbatim>\<open>.json\<close>, \<^verbatim>\<open>.xml\<close>, \<^verbatim>\<open>.csv\<close>; otherwise the image variant, carrying the MIME
  type, when the MIME type begins with \<^verbatim>\<open>image/\<close>; otherwise the text variant holding a
  description and the base64 encoding. For every other extension than the five, this is
  the choice by the MIME type alone.
\<close>

theorem analyze_file_payload_variant:
  "SamplingCall t request \<in> set (fst (analyze_file E args)) \<Longrightarrow>
     \<exists>filename fileContent ext mimeType.
       RequireString args ''filename'' = Inr filename \<and>
       os_ReadFile E (filepath_Join [DEFAULT_FILES_DIR, filename]) = Inr fileContent \<and>
       ext = strings_ToLower (unicode_ToLower E) (filepath_Ext filename) \<and>
       mimeType = (if mime_TypeByExtension E ext = [] then ''application/octet-stream''
                   else mime_TypeByExtension E ext) \<and>
       req_Messages request =
         [\<lparr>msg_Role = RoleUser,
           msg_Content =
             (if prefix ''text/'' mimeType \<or> ext \<in> {''.md'', ''.txt'', ''.json'', ''.xml'', ''.csv''}
              then TextContent ''text'' fileContent
              else if prefix ''image/'' mimeType then
                ImageContent ''image'' (base64_EncodeToString fileContent) mimeType
              else
                TextContent ''text''
                  (''This is a binary file ('' @ mimeType @ '') encoded in base64:''
                   @ newline @ newline @ base64_EncodeToString fileContent))\<rparr>] \<and>
       (ext \<notin> {''.md'', ''.txt'', ''.json'', ''.xml'', ''.csv''} \<longrightarrow>
          req_Messages request =
            [\<lparr>msg_Role = RoleUser, msg_Content = payload_by_mime_type mimeType fileContent\<rparr>])"
proof (erule SamplingCall_request)
  fix filename fileContent
  let ?ext = "strings_ToLower (unicode_ToLower E) (filepath_Ext filename)"
  let ?mime = "if mime_TypeByExtension E ?ext = [] then ''application/octet-stream''
               else mime_TypeByExtension E ?ext"
  assume a: "RequireString args ''filename'' = Inr filename"
    "os_ReadFile E (filepath_Join [DEFAULT_FILES_DIR, filename]) = Inr fileContent"
    and r: "request =
       samplingRequest (contentForLLM ?mime ?ext fileContent)
         (systemPrompt
            (basePrompt (GetString args ''analysis_type'' ''summarize'')
               (GetString args ''custom_prompt'' []))
            ?mime ?ext filename)"
  have c: "contentForLLM ?mime ?ext fileContent =
      (if prefix ''text/'' ?mime \<or> ?ext \<in> {''.md'', ''.txt'', ''.json'', ''.xml'', ''.csv''}
       then TextContent ''text'' fileContent
       else if prefix ''image/'' ?mime then
         ImageContent ''image'' (base64_EncodeToString fileContent) ?mime
       else
         TextContent ''text''
           (''This is a binary file ('' @ ?mime @ '') encoded in base64:''
            @ newline @ newline @ base64_EncodeToString fileContent))"
    unfolding contentForLLM_def is_text_file_def strings_HasPrefix_def by auto
  have p: "?ext \<notin> {''.md'', ''.txt'', ''.json'', ''.xml'', ''.csv''} \<Longrightarrow>
      contentForLLM ?mime ?ext fileContent = payload_by_mime_type ?mime fileContent"
    unfolding c payload_by_mime_type_def by simp
  have m: "req_Messages request =
      [\<lparr>msg_Role = RoleUser, msg_Content = contentForLLM ?mime ?ext fileContent\<rparr>]"
    by (simp add: r samplingRequest_def)
  show ?thesis
    apply (rule exI [of _ filename], rule exI [of _ fileContent], rule exI [of _ ?ext],
        rule exI [of _ ?mime])
    using a m c p by simp
qed

theorem analyze_file_payload_variant_witness:
  "SamplingCall 300 demo_json_request
     \<in> set (fst (analyze_file (demo_server sampling_answers) (demo_args ''data.json''))) \<and>
   req_Messages demo_json_request =
     [\<lparr>msg_Role = RoleUser, msg_Content = TextContent ''text'' ''{}''\<rparr>] \<and>
   (\<exists>filename fileContent ext mimeType.
       RequireString (demo_args ''data.json'') ''filename'' = Inr filename \<and>
       os_ReadFile (demo_server sampling_answers) (filepath_Join [DEFAULT_FILES_DIR, filename])
         = Inr fileContent \<and>
       ext = strings_ToLower (unicode_ToLower (demo_server sampling_answers))
               (filepath_Ext filename) \<and>
       mimeType =
         (if mime_TypeByExtension (demo_server sampling_answers) ext = []
          then ''application/octet-stream''
          else mime_TypeByExtension (demo_server sampling_answers) ext) \<and>
       req_Messages demo_json_request =
         [\<lparr>msg_Role = RoleUser,
           msg_Content =
             (if prefix ''text/'' mimeType \<or> ext \<in> {''.md'', ''.txt'', ''.json'', ''.xml'', ''.csv''}
              then TextContent ''text'' fileContent
              else if prefix ''image/'' mimeType then
                ImageContent ''image'' (base64_EncodeToString fileContent) mimeType
              else
                TextContent ''text''
                  (''This is a binary file ('' @ mimeType @ '') encoded in base64:''
                   @ newline @ newline @ base64_EncodeToString fileContent))\<rparr>])"
proof -
  have call: "SamplingCall 300 demo_json_request
     \<in> set (fst (analyze_file (demo_server sampling_answers) (demo_args ''data.json'')))"
    by (simp add: demo_json_trace)
  have msgs: "req_Messages demo_json_request =
     [\<lparr>msg_Role = RoleUser, msg_Content = TextContent ''text'' ''{}''\<rparr>]"
    by (simp add: demo_json_request_def samplingRequest_def)
  from analyze_file_payload_variant [OF call] call msgs show ?thesis
    by blast
qed

section \<open>Properties of the sampling handler\<close>

text \<open>
  C10. A sampling request with an empty message list makes \<^verbatim>\<open>CreateMessage\<close> return the
  error \<^verbatim>\<open>no messages provided\<close> at once: no request is handed to the HTTP client, and
  nothing the surroundings could answer has any influence on the outcome.
\<close>

theorem CreateMessage_no_messages:
  "req_Messages request = [] \<Longrightarrow>
     CreateMessage E h request = ([], (None, Some ''no messages provided''))"
  by (simp add: CreateMessage_def)

theorem CreateMessage_no_messages_witness:
  "req_Messages (demo_request []) = [] \<and>
   CreateMessage (demo_client 200) demo_handler (demo_request [])
     = ([], (None, Some ''no messages provided''))"
  using CreateMessage_no_messages [of "demo_request []" "demo_client 200" demo_handler]
  by (simp add: demo_request_def)

text \<open>
  Every return of \<^verbatim>\<open>CreateMessage\<close>: an error before any request was handed to the HTTP
  client, an error after one was, or a result built from the backend's decoded response.
\<close>

lemma CreateMessage_returns:
  "(\<exists>err. CreateMessage E h request = ([], (None, Some err)) \<and> err \<noteq> [])
   \<or> (\<exists>httpReq err. CreateMessage E h request = ([httpReq], (None, Some err)) \<and> err \<noteq> [])
   \<or> (\<exists>reqBody httpReq0 resp anthropicResp.
        json_Marshal E (anthropicReq E request) = Inr reqBody \<and>
        http_NewRequestWithContext E ''POST'' ''https://api.anthropic.com/v1/messages'' reqBody
          = Inr httpReq0 \<and>
        http_Do E (set_headers h httpReq0) = Inr resp \<and>
        hresp_StatusCode resp = http_StatusOK \<and>
        json_Decode E (hresp_Body resp) = Inr anthropicResp \<and>
        CreateMessage E h request =
          ([set_headers h httpReq0], (Some (mcp_result anthropicResp), None)))"
  unfolding CreateMessage_def Let_def
  by (auto split: sum.splits)

lemma demo_client_ok:
  "CreateMessage (demo_client 200) demo_handler
     (demo_request [\<lparr>msg_Role = RoleUser, msg_Content = TextContent ''text'' ''hello''\<rparr>])
   = ([\<lparr>hreq_Method = ''POST'', hreq_URL = ''https://api.anthropic.com/v1/messages'',
        hreq_Header =
          [''Content-Type'' \<mapsto> ''application/json'', ''x-api-key'' \<mapsto> ''key'',
           ''anthropic-version'' \<mapsto> ''2023-06-01''],
        hreq_Body = ''{}''\<rparr>],
      (Some \<lparr>msg_Role = ''assistant'', msg_Content = TextContent ''text'' ''ok'',
             res_Model = ''m1'', res_StopReason = ''end_turn''\<rparr>, None))"
  by (simp add: CreateMessage_def demo_client_def demo_handler_def demo_request_def
      set_headers_def http_StatusOK_def mcp_result_def demo_response_def responseText_def
      RoleAssistant_def)

lemma demo_client_failed:
  "CreateMessage (demo_client 529) demo_handler
     (demo_request [\<lparr>msg_Role = RoleUser, msg_Content = TextContent ''text'' ''hello''\<rparr>])
   = ([\<lparr>hreq_Method = ''POST'', hreq_URL = ''https://api.anthropic.com/v1/messages'',
        hreq_Header =
          [''Content-Type'' \<mapsto> ''application/json'', ''x-api-key'' \<mapsto> ''key'',
           ''anthropic-version'' \<mapsto> ''2023-06-01''],
        hreq_Body = ''{}''\<rparr>],
      (None, Some ''API request failed with status 529''))"
  by (simp add: CreateMessage_def demo_client_def demo_handler_def demo_request_def
      set_headers_def http_StatusOK_def decimal_int_def)

text \<open>
  C4. For every sampling request the handler returns exactly one of a result and an error.
  A result carries the content, the model label and the stop reason of the backend's
  response, which answered the one request that the handler sent; that request was built
  from the payloads, the numeric parameters and the system instruction of the sampling
  request. The handler of the all-in-one client returns exactly one of the two as well.
  The Response Envelope built from the handler's return value has exactly one of its two
  payloads populated.
\<close>

theorem CreateMessage_exactly_one:
  "(fst (snd (CreateMessage E h request)) = None) \<noteq> (snd (snd (CreateMessage E h request)) = None) \<and>
   (\<forall>result. fst (snd (CreateMessage E h request)) = Some result \<longrightarrow>
      (\<exists>reqBody httpReq0 resp anthropicResp.
         json_Marshal E (anthropicReq E request) = Inr reqBody \<and>
         http_NewRequestWithContext E ''POST'' ''https://api.anthropic.com/v1/messages'' reqBody
           = Inr httpReq0 \<and>
         http_Do E (set_headers h httpReq0) = Inr resp \<and>
         hresp_StatusCode resp = 200 \<and>
         json_Decode E (hresp_Body resp) = Inr anthropicResp \<and>
         fst (CreateMessage E h request) = [set_headers h httpReq0] \<and>
         msg_Content result = TextContent ''text'' (responseText anthropicResp) \<and>
         res_Model result = aresp_Model anthropicResp \<and>
         res_StopReason result = aresp_StopReason anthropicResp)) \<and>
   areq_MaxTokens (anthropicReq E request) = req_MaxTokens request \<and>
   areq_Temperature (anthropicReq E request) = req_Temperature request \<and>
   areq_System (anthropicReq E request) = req_SystemPrompt request \<and>
   map amsg_Content (areq_Messages (anthropicReq E request)) =
     map (\<lambda>m. convert_content E (msg_Content m)) (req_Messages request) \<and>
   (fst (Simple_CreateMessage request) = None) \<noteq> (snd (Simple_CreateMessage request) = None) \<and>
   (resp_result (build_response i (snd (CreateMessage E h request))) = None)
     \<noteq> (resp_error (build_response i (snd (CreateMessage E h request))) = None) \<and>
   response_outcome (build_response i (snd (CreateMessage E h request))) \<noteq> None"
proof -
  have built: "areq_MaxTokens (anthropicReq E request) = req_MaxTokens request \<and>
     areq_Temperature (anthropicReq E request) = req_Temperature request \<and>
     areq_System (anthropicReq E request) = req_SystemPrompt request \<and>
     map amsg_Content (areq_Messages (anthropicReq E request)) =
       map (\<lambda>m. convert_content E (msg_Content m)) (req_Messages request)"
    by (simp add: anthropicReq_def convert_message_def comp_def)
  have simple: "(fst (Simple_CreateMessage request) = None)
      \<noteq> (snd (Simple_CreateMessage request) = None)"
    by (simp add: Simple_CreateMessage_def)
  from CreateMessage_returns [of E h request] built simple show ?thesis
    by (elim disjE exE conjE)
       (simp_all add: build_response_def response_outcome_def mcp_result_def http_StatusOK_def)
qed

theorem CreateMessage_exactly_one_witness:
  "fst (snd (CreateMessage (demo_client 200) demo_handler
               (demo_request [\<lparr>msg_Role = RoleUser, msg_Content = TextContent ''text'' ''hello''\<rparr>])))
     = Some \<lparr>msg_Role = ''assistant'', msg_Content = TextContent ''text'' ''ok'',
             res_Model = ''m1'', res_StopReason = ''end_turn''\<rparr> \<and>
   snd (snd (CreateMessage (demo_client 200) demo_handler
               (demo_request [\<lparr>msg_Role = RoleUser, msg_Content = TextContent ''text'' ''hello''\<rparr>])))
     = None \<and>
   (\<exists>reqBody httpReq0 resp anthropicResp.
      json_Marshal (demo_client 200)
        (anthropicReq (demo_client 200)
           (demo_request [\<lparr>msg_Role = RoleUser, msg_Content = TextContent ''text'' ''hello''\<rparr>]))
        = Inr reqBody \<and>
      http_NewRequestWithContext (demo_client 200) ''POST''
        ''https://api.anthropic.com/v1/messages'' reqBody = Inr httpReq0 \<and>
      http_Do (demo_client 200) (set_headers demo_handler httpReq0) = Inr resp \<and>
      hresp_StatusCode resp = 200 \<and>
      json_Decode (demo_client 200) (hresp_Body resp) = Inr anthropicResp \<and>
      TextContent ''text'' ''ok'' = TextContent ''text'' (responseText anthropicResp) \<and>
      ''m1'' = aresp_Model anthropicResp \<and>
      ''end_turn'' = aresp_StopReason anthropicResp)"
proof -
  let ?request = "demo_request [\<lparr>msg_Role = RoleUser, msg_Content = TextContent ''text'' ''hello''\<rparr>]"
  let ?result = "\<lparr>msg_Role = ''assistant'', msg_Content = TextContent ''text'' ''ok'',
             res_Model = ''m1'', res_StopReason = ''end_turn''\<rparr>"
  have ok: "fst (snd (CreateMessage (demo_client 200) demo_handler ?request)) = Some ?result"
    and none: "snd (snd (CreateMessage (demo_client 200) demo_handler ?request)) = None"
    by (simp_all add: demo_client_ok)
  from CreateMessage_exactly_one [of "demo_client 200" demo_handler ?request 0] ok
  have "\<exists>reqBody httpReq0 resp anthropicResp.
      json_Marshal (demo_client 200) (anthropicReq (demo_client 200) ?request) = Inr reqBody \<and>
      http_NewRequestWithContext (demo_client 200) ''POST''
        ''https://api.anthropic.com/v1/messages'' reqBody = Inr httpReq0 \<and>
      http_Do (demo_client 200) (set_headers demo_handler httpReq0) = Inr resp \<and>
      hresp_StatusCode resp = 200 \<and>
      json_Decode (demo_client 200) (hresp_Body resp) = Inr anthropicResp \<and>
      msg_Content ?result = TextContent ''text'' (responseText anthropicResp) \<and>
      res_Model ?result = aresp_Model anthropicResp \<and>
      res_StopReason ?result = aresp_StopReason anthropicResp"
    by blast
  with ok none show ?thesis by simp
qed

section \<open>The pending request table stays well formed\<close>

text \<open>
  Each operation of the session keeps the check \<open>table_ok\<close>; so it holds after every
  history that starts from a new session.
\<close>

lemma distinct_map_split:
  "distinct (map f xs) \<Longrightarrow>
     f ` set (filter P xs) \<inter> f ` set (filter (\<lambda>x. \<not> P x) xs) = {}"
  by (induction xs) auto

lemma table_ok_new_session: "table_ok (new_session sid now)"
  by (simp add: table_ok_def new_session_def sent_ids_def pending_ids_def resolved_ids_def)

lemma send_refused:
  "\<not> supportsSamplingPush s \<or> sess_state s \<noteq> Active \<Longrightarrow> snd (send s envelope timeout) = s"
  by (auto simp: send_def)

lemma send_registered:
  assumes "supportsSamplingPush s" "sess_state s = Active"
  shows "fst (send s envelope timeout) = Inr (next_id s)"
    and "sent_ids (snd (send s envelope timeout)) = sent_ids s @ [next_id s]"
    and "pending_ids (snd (send s envelope timeout)) = pending_ids s @ [next_id s]"
    and "resolved (snd (send s envelope timeout)) = resolved s"
    and "next_id (snd (send s envelope timeout)) = Suc (next_id s)"
    and "clock (snd (send s envelope timeout)) = clock s"
    and "sess_id (snd (send s envelope timeout)) = sess_id s"
    and "pending (snd (send s envelope timeout)) =
           pending s @ [\<lparr>pe_id = next_id s, pe_deadline = clock s + timeout, pe_session = sess_id s\<rparr>]"
  using assms by (simp_all add: send_def sent_ids_def pending_ids_def)

lemma table_ok_send:
  assumes "table_ok s"
  shows "table_ok (snd (send s envelope timeout))"
proof (cases "supportsSamplingPush s \<and> sess_state s = Active")
  case False
  then show ?thesis using assms by (simp add: send_refused)
next
  case True
  let ?n = "next_id s"
  from assms have sent: "sent_ids s = [0..<?n]"
    and un: "set (pending_ids s) \<union> set (resolved_ids s) = set (sent_ids s)"
    by (simp_all add: table_ok_def)
  from un sent have fresh: "?n \<notin> set (pending_ids s)" "?n \<notin> set (resolved_ids s)"
    by auto
  from True assms fresh show ?thesis
    unfolding table_ok_def
    by (simp add: send_registered resolved_ids_def)
qed

lemma receive_discarded:
  assumes "response_outcome r = None \<or> sid \<noteq> sess_id s \<or> resp_id r \<notin> set (pending_ids s)"
  shows "pending (receive s sid r) = pending s"
    and "resolved (receive s sid r) = resolved s"
    and "pushed (receive s sid r) = pushed s"
    and "next_id (receive s sid r) = next_id s"
    and "clock (receive s sid r) = clock s"
    and "sess_id (receive s sid r) = sess_id s"
    and "sess_state (receive s sid r) = sess_state s"
    and "supportsSamplingPush (receive s sid r) = supportsSamplingPush s"
  using assms by (auto simp: receive_def split: option.splits)

lemma receive_matched:
  assumes "response_outcome r = Some out" "sid = sess_id s" "resp_id r \<in> set (pending_ids s)"
  shows "pending (receive s sid r) = filter (\<lambda>e. pe_id e \<noteq> resp_id r) (pending s)"
    and "resolved (receive s sid r) = resolved s @ [(resp_id r, out)]"
    and "pushed (receive s sid r) = pushed s"
    and "next_id (receive s sid r) = next_id s"
    and "clock (receive s sid r) = clock s"
    and "sess_id (receive s sid r) = sess_id s"
    and "sess_state (receive s sid r) = sess_state s"
    and "supportsSamplingPush (receive s sid r) = supportsSamplingPush s"
  using assms by (simp_all add: receive_def)

lemma pending_ids_filter:
  "map pe_id (filter (\<lambda>e. pe_id e \<noteq> i) es) = filter (\<lambda>j. j \<noteq> i) (map pe_id es)"
  by (induction es) auto

lemma table_ok_receive:
  assumes "table_ok s"
  shows "table_ok (receive s sid r)"
proof (cases "response_outcome r = None \<or> sid \<noteq> sess_id s \<or> resp_id r \<notin> set (pending_ids s)")
  case True
  note same = receive_discarded [OF True]
  from assms show ?thesis
    unfolding table_ok_def sent_ids_def pending_ids_def resolved_ids_def same .
next
  case False
  then obtain out where m: "response_outcome r = Some out" "sid = sess_id s"
      "resp_id r \<in> set (pending_ids s)"
    by auto
  let ?i = "resp_id r"
  from assms have dis: "set (pending_ids s) \<inter> set (resolved_ids s) = {}"
    and un: "set (pending_ids s) \<union> set (resolved_ids s) = set (sent_ids s)"
    and dp: "distinct (pending_ids s)" and dr: "distinct (resolved_ids s)"
    and sent: "sent_ids s = [0..<next_id s]"
    and dl: "list_all (\<lambda>e. clock s \<le> pe_deadline e \<and> pe_session e = sess_id s) (pending s)"
    by (simp_all add: table_ok_def)
  have p: "pending_ids (receive s sid r) = filter (\<lambda>j. j \<noteq> ?i) (pending_ids s)"
    by (simp add: pending_ids_def receive_matched [OF m] pending_ids_filter)
  have r: "resolved_ids (receive s sid r) = resolved_ids s @ [?i]"
    by (simp add: resolved_ids_def receive_matched [OF m])
  have s: "sent_ids (receive s sid r) = sent_ids s"
    by (simp add: sent_ids_def receive_matched [OF m])
  have "?i \<notin> set (resolved_ids s)" using dis m(3) by auto
  moreover have "set (filter (\<lambda>j. j \<noteq> ?i) (pending_ids s)) \<union> set (resolved_ids s @ [?i])
      = set (sent_ids s)"
    using un m(3) by auto
  moreover have "set (filter (\<lambda>j. j \<noteq> ?i) (pending_ids s)) \<inter> set (resolved_ids s @ [?i]) = {}"
    using dis by auto
  moreover have "list_all (\<lambda>e. clock s \<le> pe_deadline e \<and> pe_session e = sess_id s)
      (filter (\<lambda>e. pe_id e \<noteq> ?i) (pending s))"
    using dl by (simp add: list_all_iff)
  ultimately show ?thesis
    unfolding table_ok_def p r s
    using dp dr sent by (simp add: receive_matched [OF m])
qed

lemma tick_fields:
  "pending (tick s) = filter (\<lambda>e. Suc (clock s) < pe_deadline e) (pending s)"
  "resolved (tick s) =
     resolved s @ map (\<lambda>e. (pe_id e, Inl Timeout))
                    (filter (\<lambda>e. \<not> Suc (clock s) < pe_deadline e) (pending s))"
  "pushed (tick s) = pushed s"
  "next_id (tick s) = next_id s"
  "clock (tick s) = Suc (clock s)"
  "sess_id (tick s) = sess_id s"
  "sess_state (tick s) = sess_state s"
  "supportsSamplingPush (tick s) = supportsSamplingPush s"
  by (simp_all add: tick_def Let_def)

lemma table_ok_tick:
  assumes "table_ok s"
  shows "table_ok (tick s)"
proof -
  let ?P = "\<lambda>e. Suc (clock s) < pe_deadline e"
  let ?keep = "map pe_id (filter ?P (pending s))"
  let ?due = "map pe_id (filter (\<lambda>e. \<not> ?P e) (pending s))"
  from assms have dis: "set (pending_ids s) \<inter> set (resolved_ids s) = {}"
    and un: "set (pending_ids s) \<union> set (resolved_ids s) = set (sent_ids s)"
    and dp: "distinct (pending_ids s)" and dr: "distinct (resolved_ids s)"
    and sent: "sent_ids s = [0..<next_id s]"
    and dl: "list_all (\<lambda>e. clock s \<le> pe_deadline e \<and> pe_session e = sess_id s) (pending s)"
    by (simp_all add: table_ok_def)
  have p: "pending_ids (tick s) = ?keep"
    by (simp add: pending_ids_def tick_fields)
  have r: "resolved_ids (tick s) = resolved_ids s @ ?due"
    by (simp add: resolved_ids_def tick_fields comp_def)
  have s: "sent_ids (tick s) = sent_ids s"
    by (simp add: sent_ids_def tick_fields)
  have split: "set ?keep \<inter> set ?due = {}"
    using distinct_map_split [of pe_id "pending s" ?P] dp by (simp add: pending_ids_def)
  have all: "set ?keep \<union> set ?due = set (pending_ids s)"
    by (auto simp: pending_ids_def)
  have "distinct ?keep" "distinct ?due"
    using dp by (simp_all add: pending_ids_def distinct_map_filter)
  moreover have "set (resolved_ids s) \<inter> set ?due = {}"
    using dis all by blast
  moreover have "set ?keep \<inter> set (resolved_ids s @ ?due) = {}"
    using dis all split by (simp only: set_append) blast
  moreover have "set ?keep \<union> set (resolved_ids s @ ?due) = set (sent_ids s)"
    using un all by (simp only: set_append) blast
  moreover have "list_all (\<lambda>e. Suc (clock s) \<le> pe_deadline e \<and> pe_session e = sess_id s)
      (filter ?P (pending s))"
    using dl by (auto simp: list_all_iff)
  ultimately show ?thesis
    unfolding table_ok_def p r s
    using dr sent by (simp add: tick_fields)
qed

lemma close_active:
  assumes "sess_state s = Active"
  shows "pending (close s) = []"
    and "resolved (close s) = resolved s @ map (\<lambda>e. (pe_id e, Inl SessionClosed)) (pending s)"
    and "pushed (close s) = pushed s"
    and "next_id (close s) = next_id s"
    and "clock (close s) = clock s"
    and "sess_id (close s) = sess_id s"
  using assms by (simp_all add: close_def)

lemma table_ok_close:
  assumes "table_ok s"
  shows "table_ok (close s)"
proof (cases "sess_state s = Active")
  case False
  then show ?thesis using assms by (simp add: close_def)
next
  case True
  have r: "resolved_ids (close s) = resolved_ids s @ pending_ids s"
    by (simp add: resolved_ids_def pending_ids_def close_active [OF True] comp_def)
  have p: "pending_ids (close s) = []"
    by (simp add: pending_ids_def close_active [OF True])
  have s: "sent_ids (close s) = sent_ids s"
    by (simp add: sent_ids_def close_active [OF True])
  from assms show ?thesis
    unfolding table_ok_def p r s
    by (auto simp: close_active [OF True])
qed

lemma table_ok_step: "table_ok s \<Longrightarrow> table_ok (step s ev)"
proof (cases ev)
  case Connected
  assume "table_ok s"
  then show ?thesis
    by (simp add: Connected table_ok_def sent_ids_def pending_ids_def resolved_ids_def)
next
  case (Negotiated capable)
  assume "table_ok s"
  then show ?thesis
    by (simp add: Negotiated table_ok_def sent_ids_def pending_ids_def resolved_ids_def)
next
  case (Send envelope timeout)
  assume "table_ok s"
  then show ?thesis by (simp add: Send table_ok_send)
next
  case (Response sid r)
  assume "table_ok s"
  then show ?thesis by (simp add: Response table_ok_receive)
next
  case Tick
  assume "table_ok s"
  then show ?thesis by (simp add: Tick table_ok_tick)
next
  case CloseRequest
  assume "table_ok s"
  then show ?thesis by (simp add: CloseRequest table_ok_close)
next
  case Drained
  assume "table_ok s"
  then show ?thesis
    by (simp add: Drained table_ok_def sent_ids_def pending_ids_def resolved_ids_def)
qed

lemma table_ok_run: "table_ok s \<Longrightarrow> table_ok (run s evs)"
  unfolding run_def by (induction evs arbitrary: s) (simp_all add: table_ok_step)

lemma table_ok_reachable: "table_ok (run (new_session sid now) evs)"
  by (simp add: table_ok_run table_ok_new_session)

lemma resolved_step: "\<exists>ys. resolved (step s ev) = resolved s @ ys"
  by (cases ev) (auto simp: send_def receive_def tick_def close_def Let_def split: option.splits)

lemma resolved_run: "\<exists>ys. resolved (run s evs) = resolved s @ ys"
proof (induction evs arbitrary: s)
  case Nil
  then show ?case by (simp add: run_def)
next
  case (Cons ev evs)
  obtain ys where a: "resolved (step s ev) = resolved s @ ys"
    using resolved_step by blast
  obtain zs where b: "resolved (run (step s ev) evs) = resolved (step s ev) @ zs"
    using Cons.IH by blast
  have "run s (ev # evs) = run (step s ev) evs" by (simp add: run_def)
  with a b show ?case by simp
qed

lemma outcome_run:
  assumes "outcome s i = Some out"
  shows "outcome (run s evs) i = Some out"
proof -
  obtain ys where "resolved (run s evs) = resolved s @ ys"
    using resolved_run by blast
  with assms show ?thesis by (simp add: outcome_def map_add_Some_iff)
qed

lemma outcome_resolved_ids: "outcome s i \<noteq> None \<longleftrightarrow> i \<in> set (resolved_ids s)"
  by (simp add: outcome_def resolved_ids_def map_of_eq_None_iff)

lemma resolved_not_pending:
  "table_ok s \<Longrightarrow> i \<in> set (resolved_ids s) \<Longrightarrow> i \<notin> set (pending_ids s)"
  by (auto simp: table_ok_def)

lemma pending_iff:
  assumes "table_ok s"
  shows "i \<in> set (pending_ids s) \<longleftrightarrow> i \<in> set (sent_ids s) \<and> i \<notin> set (resolved_ids s)"
  using assms unfolding table_ok_def by blast

lemma late_response_discarded:
  assumes "table_ok s" "resp_id r \<in> set (resolved_ids s)"
  shows "pending (receive s addr r) = pending s" "resolved (receive s addr r) = resolved s"
  using receive_discarded [of r addr s] resolved_not_pending [OF assms] by simp_all

text \<open>
  A registered request keeps its deadline while it is pending, so it cannot be pending
  once the clock has passed the deadline.
\<close>

lemma map_of_const:
  "map_of (map (\<lambda>e. (f e, c)) xs) i = (if i \<in> f ` set xs then Some c else None)"
  by (induction xs) auto

lemma entry_tracked_step:
  assumes "i < next_id s" "\<forall>e\<in>set (pending s). pe_id e = i \<longrightarrow> pe_deadline e = d"
  shows "i < next_id (step s ev) \<and>
         (\<forall>e\<in>set (pending (step s ev)). pe_id e = i \<longrightarrow> pe_deadline e = d)"
  using assms
  by (cases ev) (auto simp: send_def receive_def tick_def close_def Let_def split: option.splits)

lemma entry_tracked_run:
  assumes "i < next_id s" "\<forall>e\<in>set (pending s). pe_id e = i \<longrightarrow> pe_deadline e = d"
  shows "i < next_id (run s evs) \<and>
         (\<forall>e\<in>set (pending (run s evs)). pe_id e = i \<longrightarrow> pe_deadline e = d)"
  using assms
proof (induction evs arbitrary: s)
  case Nil
  then show ?case by (simp add: run_def)
next
  case (Cons ev evs)
  have "i < next_id (step s ev) \<and>
        (\<forall>e\<in>set (pending (step s ev)). pe_id e = i \<longrightarrow> pe_deadline e = d)"
    using Cons.prems by (rule entry_tracked_step)
  then have "i < next_id (run (step s ev) evs) \<and>
        (\<forall>e\<in>set (pending (run (step s ev) evs)). pe_id e = i \<longrightarrow> pe_deadline e = d)"
    using Cons.IH by blast
  then show ?case by (simp add: run_def)
qed

lemma send_answers:
  "fst (send s envelope timeout) = Inl CapabilityNotSupported \<and> snd (send s envelope timeout) = s
   \<or> fst (send s envelope timeout) = Inl SessionClosed \<and> snd (send s envelope timeout) = s
   \<or> fst (send s envelope timeout) = Inr (next_id s) \<and> supportsSamplingPush s \<and> sess_state s = Active"
  by (simp add: send_def)

lemma registered_tracked:
  assumes ok: "table_ok s" and reg: "supportsSamplingPush s" "sess_state s = Active"
  shows "table_ok (run (snd (send s envelope timeout)) later)"
    and "next_id s < next_id (run (snd (send s envelope timeout)) later)"
    and "\<forall>e\<in>set (pending (run (snd (send s envelope timeout)) later)).
           pe_id e = next_id s \<longrightarrow> pe_deadline e = clock s + timeout"
proof -
  let ?s1 = "snd (send s envelope timeout)"
  show "table_ok (run ?s1 later)"
    using ok by (simp add: table_ok_send table_ok_run)
  from ok have "set (pending_ids s) \<subseteq> set (sent_ids s)" "sent_ids s = [0..<next_id s]"
    by (auto simp: table_ok_def)
  then have "\<forall>e\<in>set (pending s). pe_id e < next_id s"
    by (auto simp: pending_ids_def)
  then have a: "\<forall>e\<in>set (pending ?s1). pe_id e = next_id s \<longrightarrow> pe_deadline e = clock s + timeout"
    by (auto simp: send_registered(8) [OF reg])
  have b: "next_id s < next_id ?s1"
    by (simp add: send_registered(5) [OF reg])
  from entry_tracked_run [OF b a, of later]
  show "next_id s < next_id (run ?s1 later)"
    and "\<forall>e\<in>set (pending (run ?s1 later)).
           pe_id e = next_id s \<longrightarrow> pe_deadline e = clock s + timeout"
    by simp_all
qed

lemma resolved_by_deadline:
  assumes ok: "table_ok s" and reg: "supportsSamplingPush s" "sess_state s = Active"
    and late: "clock s + timeout < clock (run (snd (send s envelope timeout)) later)"
  shows "outcome (run (snd (send s envelope timeout)) later) (next_id s) \<noteq> None"
proof -
  let ?s2 = "run (snd (send s envelope timeout)) later"
  note t = registered_tracked [OF ok reg, of envelope timeout later]
  from t(1) have sent: "sent_ids ?s2 = [0..<next_id ?s2]"
    and un: "set (pending_ids ?s2) \<union> set (resolved_ids ?s2) = set (sent_ids ?s2)"
    and dl: "\<forall>e\<in>set (pending ?s2). clock ?s2 \<le> pe_deadline e"
    by (simp_all add: table_ok_def list_all_iff)
  have "next_id s \<notin> set (pending_ids ?s2)"
  proof
    assume "next_id s \<in> set (pending_ids ?s2)"
    then obtain e where e: "e \<in> set (pending ?s2)" "pe_id e = next_id s"
      by (auto simp: pending_ids_def)
    with t(3) have "pe_deadline e = clock s + timeout" by blast
    moreover from dl e(1) have "clock ?s2 \<le> pe_deadline e" by blast
    ultimately show False using late by simp
  qed
  moreover have "next_id s \<in> set (sent_ids ?s2)"
    using sent t(2) by simp
  ultimately have "next_id s \<in> set (resolved_ids ?s2)"
    using un by blast
  then show ?thesis
    using outcome_resolved_ids [of ?s2 "next_id s"] by blast
qed

lemma timed_out:
  assumes ok: "table_ok s" and reg: "supportsSamplingPush s" "sess_state s = Active"
    and waiting: "next_id s \<in> set (pending_ids (run (snd (send s envelope timeout)) later))"
    and due: "clock s + timeout \<le> clock (run (snd (send s envelope timeout)) later) + 1"
  shows "next_id s \<notin> set (pending_ids (tick (run (snd (send s envelope timeout)) later)))"
    and "outcome (tick (run (snd (send s envelope timeout)) later)) (next_id s) = Some (Inl Timeout)"
proof -
  let ?s2 = "run (snd (send s envelope timeout)) later"
  let ?i = "next_id s"
  note t = registered_tracked [OF ok reg, of envelope timeout later]
  have gone: "\<forall>e\<in>set (pending ?s2). pe_id e = ?i \<longrightarrow> \<not> Suc (clock ?s2) < pe_deadline e"
    using t(3) due by auto
  then show "?i \<notin> set (pending_ids (tick ?s2))"
    by (auto simp: pending_ids_def tick_fields)
  from waiting obtain e where e: "e \<in> set (pending ?s2)" "pe_id e = ?i"
    by (auto simp: pending_ids_def)
  with gone have "?i \<in> pe_id ` set (filter (\<lambda>e. \<not> Suc (clock ?s2) < pe_deadline e) (pending ?s2))"
    by force
  moreover have "?i \<notin> set (resolved_ids ?s2)"
    using t(1) waiting by (auto simp: table_ok_def)
  ultimately show "outcome (tick ?s2) ?i = Some (Inl Timeout)"
    by (simp add: outcome_def tick_fields map_add_Some_iff map_of_const resolved_ids_def
        map_of_eq_None_iff)
qed

section \<open>Properties of the correlation layer\<close>

lemmas session_simps =
  run_def new_session_def send_def receive_def tick_def close_def pending_ids_def sent_ids_def
  resolved_ids_def outcome_def response_outcome_def demo_session_def demo_envelope_def
  demo_reply_def Let_def

text \<open>
  C1. At any time in a session's history, an identifier is in the Pending Request Table
  exactly when its request has been sent and nothing (response, timeout, closure) has
  resolved it yet; the pending entries carry pairwise different identifiers and belong to
  the session; no identifier is resolved twice. Once a response has resolved an identifier,
  a later response for the same identifier, whatever happened in between, changes
  neither the table nor any resolution (it is dropped, or discarded and counted), and the
  identifier is absent from the table afterwards.
\<close>

theorem pending_table_invariant:
  assumes "s = run (new_session sid now) evs"
  shows "(\<forall>i. i \<in> set (pending_ids s) \<longleftrightarrow>
               i \<in> set (sent_ids s) \<and> i \<notin> set (resolved_ids s)) \<and>
         distinct (pending_ids s) \<and>
         list_all (\<lambda>e. pe_session e = sess_id s) (pending s) \<and>
         distinct (resolved_ids s) \<and>
         (\<forall>r out later addr r'.
            response_outcome r = Some out \<and> resp_id r \<in> set (pending_ids s) \<and>
            resp_id r' = resp_id r \<longrightarrow>
              outcome (run (receive s (sess_id s) r) later) (resp_id r) = Some out \<and>
              receive (run (receive s (sess_id s) r) later) addr r' =
                (if response_outcome r' = None then run (receive s (sess_id s) r) later
                 else (run (receive s (sess_id s) r) later)
                        \<lparr>discarded := discarded (run (receive s (sess_id s) r) later) + 1\<rparr>) \<and>
              resp_id r \<notin> set (pending_ids (receive (run (receive s (sess_id s) r) later) addr r')))"
proof -
  have ok: "table_ok s"
    using assms by (simp add: table_ok_reachable)
  have late: "outcome (run (receive s (sess_id s) r) later) (resp_id r) = Some out \<and>
              receive (run (receive s (sess_id s) r) later) addr r' =
                (if response_outcome r' = None then run (receive s (sess_id s) r) later
                 else (run (receive s (sess_id s) r) later)
                        \<lparr>discarded := discarded (run (receive s (sess_id s) r) later) + 1\<rparr>) \<and>
              resp_id r \<notin> set (pending_ids (receive (run (receive s (sess_id s) r) later) addr r'))"
    if m: "response_outcome r = Some out" "resp_id r \<in> set (pending_ids s)"
      and same: "resp_id r' = resp_id r"
    for r out later addr r'
  proof -
    let ?s1 = "receive s (sess_id s) r"
    let ?s2 = "run ?s1 later"
    have fresh: "resp_id r \<notin> set (resolved_ids s)"
      using ok m(2) by (auto simp: table_ok_def)
    have "resolved ?s1 = resolved s @ [(resp_id r, out)]"
      using receive_matched(2) [OF m(1) refl m(2)] .
    with fresh have o1: "outcome ?s1 (resp_id r) = Some out"
      by (simp add: outcome_def resolved_ids_def map_add_Some_iff map_of_eq_None_iff)
    then have o2: "outcome ?s2 (resp_id r) = Some out"
      by (rule outcome_run)
    have ok2: "table_ok ?s2"
      using ok by (simp add: table_ok_receive table_ok_run)
    have res2: "resp_id r' \<in> set (resolved_ids ?s2)"
      using o2 same outcome_resolved_ids [of ?s2 "resp_id r"] by simp
    then have np: "resp_id r' \<notin> set (pending_ids ?s2)"
      using ok2 by (simp add: resolved_not_pending)
    then have disc: "receive ?s2 addr r' =
        (if response_outcome r' = None then ?s2 else ?s2\<lparr>discarded := discarded ?s2 + 1\<rparr>)"
      by (simp add: receive_def split: option.splits)
    have "pending (receive ?s2 addr r') = pending ?s2"
      using late_response_discarded(1) [OF ok2 res2] .
    then have "resp_id r \<notin> set (pending_ids (receive ?s2 addr r'))"
      using np same by (simp add: pending_ids_def)
    with o2 disc show ?thesis by simp
  qed
  from ok have "list_all (\<lambda>e. pe_session e = sess_id s) (pending s)"
    by (simp add: table_ok_def list_all_iff)
  moreover from ok have "distinct (pending_ids s)" "distinct (resolved_ids s)"
    by (simp_all add: table_ok_def)
  ultimately show ?thesis
    using pending_iff [OF ok] late by blast
qed

theorem pending_table_invariant_witness:
  "pending_ids (run (new_session 1 0) [Connected, Negotiated True, Send demo_envelope 2]) = [0] \<and>
   sent_ids (run (new_session 1 0) [Connected, Negotiated True, Send demo_envelope 2]) = [0] \<and>
   resolved_ids (run (new_session 1 0) [Connected, Negotiated True, Send demo_envelope 2]) = [] \<and>
   response_outcome (demo_reply 0) = Some (Inr demo_result) \<and>
   resp_id (demo_reply 0)
     \<in> set (pending_ids (run (new_session 1 0) [Connected, Negotiated True, Send demo_envelope 2])) \<and>
   outcome
     (run (receive (run (new_session 1 0) [Connected, Negotiated True, Send demo_envelope 2])
             1 (demo_reply 0)) [Tick])
     0 = Some (Inr demo_result) \<and>
   0 \<notin> set (pending_ids
             (receive
                (run (receive (run (new_session 1 0) [Connected, Negotiated True, Send demo_envelope 2])
                        1 (demo_reply 0)) [Tick])
                1 (demo_reply 0)))"
proof -
  let ?s = "run (new_session 1 0) [Connected, Negotiated True, Send demo_envelope 2]"
  note inst = pending_table_invariant [OF refl, of 1 0 "[Connected, Negotiated True, Send demo_envelope 2]"]
  have ids: "pending_ids ?s = [0]" "sent_ids ?s = [0]" "resolved_ids ?s = []" "sess_id ?s = 1"
    by (simp_all add: session_simps)
  have hyp: "response_outcome (demo_reply 0) = Some (Inr demo_result) \<and>
             resp_id (demo_reply 0) \<in> set (pending_ids ?s) \<and>
             resp_id (demo_reply 0) = resp_id (demo_reply 0)"
    by (simp add: ids) (simp add: session_simps)
  from inst hyp have
    "outcome (run (receive ?s (sess_id ?s) (demo_reply 0)) [Tick]) (resp_id (demo_reply 0))
       = Some (Inr demo_result) \<and>
     resp_id (demo_reply 0)
       \<notin> set (pending_ids (receive (run (receive ?s (sess_id ?s) (demo_reply 0)) [Tick])
                              1 (demo_reply 0)))"
    by blast
  then have "outcome (run (receive ?s 1 (demo_reply 0)) [Tick]) 0 = Some (Inr demo_result) \<and>
     0 \<notin> set (pending_ids (receive (run (receive ?s 1 (demo_reply 0)) [Tick]) 1 (demo_reply 0)))"
    by (simp only: ids) (simp add: demo_reply_def)
  with ids hyp show ?thesis by simp
qed

text \<open>
  C3. A \<open>send\<close> on a session whose peer has not declared the push capability fails at
  once with \<open>CapabilityNotSupported\<close> and leaves the session as it was: nothing is
  written to the push channel and the Pending Request Table is untouched. Hence, as long
  as the capability is missing, no history of the session has ever pushed a request or
  created a pending entry.
\<close>

theorem send_without_capability:
  "(\<not> supportsSamplingPush s \<longrightarrow> send s envelope timeout = (Inl CapabilityNotSupported, s)) \<and>
   (\<not> supportsSamplingPush (run (new_session sid now) evs) \<longrightarrow>
      pushed (run (new_session sid now) evs) = [] \<and> pending (run (new_session sid now) evs) = [])"
proof -
  let ?J = "\<lambda>s. (sess_state s = Connecting \<or> sess_state s = Negotiating \<longrightarrow> \<not> supportsSamplingPush s) \<and>
                (\<not> supportsSamplingPush s \<longrightarrow> pushed s = [] \<and> pending s = [])"
  have step: "?J (step s ev)" if "?J s" for s ev
    using that
    by (cases ev) (auto simp: send_def receive_def tick_def close_def Let_def split: option.splits)
  have "?J (run s evs)" if "?J s" for s
    using that unfolding run_def
  proof (induction evs arbitrary: s)
    case Nil
    then show ?case by simp
  next
    case (Cons ev evs)
    have "?J (step s ev)" using Cons.prems by (rule step)
    then have "?J (foldl step (step s ev) evs)" by (rule Cons.IH)
    then show ?case by simp
  qed
  moreover have "?J (new_session sid now)"
    by (simp add: new_session_def)
  ultimately have "?J (run (new_session sid now) evs)" by blast
  then show ?thesis by (simp add: send_def)
qed

theorem send_without_capability_witness:
  "\<not> supportsSamplingPush (demo_session False) \<and>
   send (demo_session False) demo_envelope 2 = (Inl CapabilityNotSupported, demo_session False) \<and>
   \<not> supportsSamplingPush
       (run (new_session 1 0) [Connected, Negotiated False, Send demo_envelope 2, Tick]) \<and>
   pushed (run (new_session 1 0) [Connected, Negotiated False, Send demo_envelope 2, Tick]) = [] \<and>
   pending (run (new_session 1 0) [Connected, Negotiated False, Send demo_envelope 2, Tick]) = []"
proof -
  have a: "\<not> supportsSamplingPush (demo_session False)"
    by (simp add: session_simps)
  have b: "\<not> supportsSamplingPush
       (run (new_session 1 0) [Connected, Negotiated False, Send demo_envelope 2, Tick])"
    by (simp add: session_simps)
  from a b
    send_without_capability [of "demo_session False" demo_envelope 2 1 0
       "[Connected, Negotiated False, Send demo_envelope 2, Tick]"]
  show ?thesis by blast
qed

text \<open>
  C2. Every \<open>send\<close> gives its caller a definitive outcome. It fails at once, with
  \<open>CapabilityNotSupported\<close> or \<open>SessionClosed\<close>, or it registers the request; then, in
  every continuation of the history, the caller holds an outcome (content or a failure)
  as soon as the clock has passed the time of the call plus the timeout, so the logical
  clock bounds the wait by the timeout plus one tick. If the request is still pending when
  the next tick reaches its deadline, that tick removes the entry and the caller receives
  \<open>Timeout\<close>; the outcome stays \<open>Timeout\<close> whatever happens afterwards, and a response
  for the identifier that arrives afterwards changes neither the table nor any resolution.
  The server's tool handler makes its sampling call with a timeout of five minutes and
  answers with a tool result whatever the call returns.
\<close>

theorem send_outcome_within_timeout:
  assumes "s = run (new_session sid now) evs"
  shows "(fst (send s envelope timeout) = Inl CapabilityNotSupported \<and>
            snd (send s envelope timeout) = s
          \<or> fst (send s envelope timeout) = Inl SessionClosed \<and>
            snd (send s envelope timeout) = s
          \<or> fst (send s envelope timeout) = Inr (next_id s)) \<and>
         (\<forall>i later.
            fst (send s envelope timeout) = Inr i \<and>
            clock s + timeout < clock (run (snd (send s envelope timeout)) later) \<longrightarrow>
              outcome (run (snd (send s envelope timeout)) later) i \<noteq> None) \<and>
         (\<forall>i later after addr r.
            fst (send s envelope timeout) = Inr i \<and>
            i \<in> set (pending_ids (run (snd (send s envelope timeout)) later)) \<and>
            clock s + timeout \<le> clock (run (snd (send s envelope timeout)) later) + 1 \<and>
            resp_id r = i \<longrightarrow>
              i \<notin> set (pending_ids (tick (run (snd (send s envelope timeout)) later))) \<and>
              outcome (tick (run (snd (send s envelope timeout)) later)) i = Some (Inl Timeout) \<and>
              outcome (run (tick (run (snd (send s envelope timeout)) later)) after) i
                = Some (Inl Timeout) \<and>
              pending (receive (run (tick (run (snd (send s envelope timeout)) later)) after) addr r)
                = pending (run (tick (run (snd (send s envelope timeout)) later)) after) \<and>
              resolved (receive (run (tick (run (snd (send s envelope timeout)) later)) after) addr r)
                = resolved (run (tick (run (snd (send s envelope timeout)) later)) after)) \<and>
         (\<forall>t req.
            SamplingCall t req \<in> set (fst (analyze_file S args)) \<longrightarrow>
              t = 5 * 60 \<and> (\<exists>result. snd (analyze_file S args) = Inr result))"
proof -
  let ?s1 = "snd (send s envelope timeout)"
  have ok: "table_ok s"
    using assms by (simp add: table_ok_reachable)
  have answers: "fst (send s envelope timeout) = Inl CapabilityNotSupported \<and> ?s1 = s
          \<or> fst (send s envelope timeout) = Inl SessionClosed \<and> ?s1 = s
          \<or> fst (send s envelope timeout) = Inr (next_id s)"
    using send_answers [of s envelope timeout] by blast
  have reg: "i = next_id s \<and> supportsSamplingPush s \<and> sess_state s = Active"
    if "fst (send s envelope timeout) = Inr i" for i
    using that send_answers [of s envelope timeout] by auto
  have bounded: "outcome (run ?s1 later) i \<noteq> None"
    if "fst (send s envelope timeout) = Inr i" "clock s + timeout < clock (run ?s1 later)"
    for i later
    using resolved_by_deadline [OF ok, where envelope = envelope and timeout = timeout
        and later = later] reg [OF that(1)] that(2)
    by blast
  have expiry: "i \<notin> set (pending_ids (tick (run ?s1 later))) \<and>
      outcome (tick (run ?s1 later)) i = Some (Inl Timeout) \<and>
      outcome (run (tick (run ?s1 later)) after) i = Some (Inl Timeout) \<and>
      pending (receive (run (tick (run ?s1 later)) after) addr r)
        = pending (run (tick (run ?s1 later)) after) \<and>
      resolved (receive (run (tick (run ?s1 later)) after) addr r)
        = resolved (run (tick (run ?s1 later)) after)"
    if sent: "fst (send s envelope timeout) = Inr i"
      and waiting: "i \<in> set (pending_ids (run ?s1 later))"
      and due: "clock s + timeout \<le> clock (run ?s1 later) + 1"
      and same: "resp_id r = i"
    for i later after addr r
  proof -
    from reg [OF sent] have i: "i = next_id s" and r: "supportsSamplingPush s" "sess_state s = Active"
      by simp_all
    let ?s3 = "tick (run ?s1 later)"
    let ?s4 = "run ?s3 after"
    note out = timed_out [OF ok r, where envelope = envelope and timeout = timeout
        and later = later, folded i, OF waiting due]
    have o4: "outcome ?s4 i = Some (Inl Timeout)"
      using out(2) by (rule outcome_run)
    have ok4: "table_ok ?s4"
      using ok by (simp add: table_ok_send table_ok_run table_ok_tick)
    have "resp_id r \<in> set (resolved_ids ?s4)"
      using o4 same outcome_resolved_ids [of ?s4 i] by simp
    note late_response_discarded [OF ok4 this, of addr]
    with out o4 show ?thesis by simp
  qed
  have caller: "t = 5 * 60 \<and> (\<exists>result. snd (analyze_file S args) = Inr result)"
    if "SamplingCall t req \<in> set (fst (analyze_file S args))" for t req
    using that by (rule SamplingCall_request) (simp add: sampling_timeout_def)
  from answers bounded expiry caller show ?thesis by blast
qed

theorem send_outcome_within_timeout_witness:
  "fst (send (demo_session True) demo_envelope 2) = Inr 0 \<and>
   clock (demo_session True) + 2
     < clock (run (snd (send (demo_session True) demo_envelope 2)) [Tick, Tick, Tick]) \<and>
   outcome (run (snd (send (demo_session True) demo_envelope 2)) [Tick, Tick, Tick]) 0 \<noteq> None \<and>
   0 \<in> set (pending_ids (run (snd (send (demo_session True) demo_envelope 2)) [Tick])) \<and>
   clock (demo_session True) + 2
     \<le> clock (run (snd (send (demo_session True) demo_envelope 2)) [Tick]) + 1 \<and>
   resp_id (demo_reply 0) = 0 \<and>
   0 \<notin> set (pending_ids (tick (run (snd (send (demo_session True) demo_envelope 2)) [Tick]))) \<and>
   outcome (tick (run (snd (send (demo_session True) demo_envelope 2)) [Tick])) 0
     = Some (Inl Timeout) \<and>
   resolved
     (receive (run (tick (run (snd (send (demo_session True) demo_envelope 2)) [Tick])) [Tick])
        1 (demo_reply 0))
     = resolved (run (tick (run (snd (send (demo_session True) demo_envelope 2)) [Tick])) [Tick]) \<and>
   SamplingCall 300 demo_notes_request
     \<in> set (fst (analyze_file (demo_server sampling_fails) (demo_args ''notes.txt''))) \<and>
   (\<exists>result. snd (analyze_file (demo_server sampling_fails) (demo_args ''notes.txt''))
      = Inr result)"
proof -
  let ?s = "demo_session True"
  let ?s1 = "snd (send ?s demo_envelope 2)"
  have s: "?s = run (new_session 1 0) [Connected, Negotiated True]"
    by (simp add: demo_session_def)
  note inst = send_outcome_within_timeout [OF s, where envelope = demo_envelope and timeout = 2
      and S = "demo_server sampling_fails" and args = "demo_args ''notes.txt''"]
  have call: "SamplingCall 300 demo_notes_request
     \<in> set (fst (analyze_file (demo_server sampling_fails) (demo_args ''notes.txt'')))"
    by (simp add: demo_notes_trace)
  from inst call have c:
    "\<exists>result. snd (analyze_file (demo_server sampling_fails) (demo_args ''notes.txt''))
       = Inr result"
    by blast
  have sent: "fst (send ?s demo_envelope 2) = Inr 0"
    by (simp add: session_simps)
  have late: "clock ?s + 2 < clock (run ?s1 [Tick, Tick, Tick])"
    by (simp add: session_simps)
  have waiting: "0 \<in> set (pending_ids (run ?s1 [Tick]))"
    by (simp add: session_simps)
  have due: "clock ?s + 2 \<le> clock (run ?s1 [Tick]) + 1"
    by (simp add: session_simps)
  have same: "resp_id (demo_reply 0) = 0"
    by (simp add: demo_reply_def)
  from inst sent late have a: "outcome (run ?s1 [Tick, Tick, Tick]) 0 \<noteq> None"
    by blast
  from inst sent waiting due same have b:
    "0 \<notin> set (pending_ids (tick (run ?s1 [Tick]))) \<and>
     outcome (tick (run ?s1 [Tick])) 0 = Some (Inl Timeout) \<and>
     resolved (receive (run (tick (run ?s1 [Tick])) [Tick]) 1 (demo_reply 0))
       = resolved (run (tick (run ?s1 [Tick])) [Tick])"
    by blast
  from sent late waiting due same a b call c show ?thesis by blast
qed

text \<open>
  C6. Encoding a Request Envelope and decoding the frame gives the envelope back, with
  the payload's type tag and every field of the payload (text body, image data, MIME
  type) unchanged: for a text payload, for an image payload, and for each payload that
  \<^verbatim>\<open>analyze_file\<close> builds, the binary file rendered as text included. On the
  responder's side the handler's conversion of a text or image payload keeps the same
  fields.
\<close>

theorem request_envelope_roundtrip:
  "(\<exists>frame. encode_request (e\<lparr>env_content := TextContent ''text'' body\<rparr>) = Some frame \<and>
            decode_request frame = Some (e\<lparr>env_content := TextContent ''text'' body\<rparr>)) \<and>
   (\<exists>frame. encode_request (e\<lparr>env_content := ImageContent ''image'' data mimeType\<rparr>) = Some frame \<and>
            decode_request frame = Some (e\<lparr>env_content := ImageContent ''image'' data mimeType\<rparr>)) \<and>
   (\<exists>frame. encode_request (e\<lparr>env_content := contentForLLM mimeType ext fileContent\<rparr>) = Some frame \<and>
            decode_request frame = Some (e\<lparr>env_content := contentForLLM mimeType ext fileContent\<rparr>)) \<and>
   convert_content E (TextContent ''text'' body) = [TextBlock ''text'' body] \<and>
   convert_content E (ImageContent ''image'' data mimeType) =
     [ImageBlock ''image'' \<lparr>src_Type = ''base64'', src_MediaType = mimeType, src_Data = data\<rparr>]"
proof -
  have rt_text: "\<exists>frame. encode_request (e\<lparr>env_content := TextContent ''text'' body\<rparr>) = Some frame \<and>
            decode_request frame = Some (e\<lparr>env_content := TextContent ''text'' body\<rparr>)"
    for e body
    by (cases "env_systemPrompt e")
       (simp_all add: encode_request_def encode_content_def decode_request_def decode_content_def
          field_def string_field_def int_field_def number_field_def)
  have rt_image: "\<exists>frame. encode_request (e\<lparr>env_content := ImageContent ''image'' data mimeType\<rparr>) = Some frame \<and>
            decode_request frame = Some (e\<lparr>env_content := ImageContent ''image'' data mimeType\<rparr>)"
    for e data mimeType
    by (cases "env_systemPrompt e")
       (simp_all add: encode_request_def encode_content_def decode_request_def decode_content_def
          field_def string_field_def int_field_def number_field_def)
  have built: "\<exists>frame. encode_request (e\<lparr>env_content := contentForLLM mimeType ext fileContent\<rparr>) = Some frame \<and>
            decode_request frame = Some (e\<lparr>env_content := contentForLLM mimeType ext fileContent\<rparr>)"
    unfolding contentForLLM_def using rt_text rt_image by simp
  show ?thesis
    using rt_text rt_image built by (simp add: convert_content_def)
qed

text \<open>
  C7. When the sampling handler fails for a request that is pending, the Response Envelope
  built from its return value carries the failure \<open>HandlerError\<close> with the handler's
  message, which is never empty; receiving it resolves exactly that request with this
  failure and removes its entry, and no other request's outcome changes. In the server,
  whenever \<^verbatim>\<open>RequestSampling\<close> returns an error for the request that \<^verbatim>\<open>analyze_file\<close>
  made, the tool's result is an error result whose text carries the error's message.
\<close>

theorem handler_error_reported:
  assumes "s = run (new_session sid now) evs"
  shows
    "(\<forall>i message.
        snd (snd (CreateMessage E h request)) = Some message \<and> i \<in> set (pending_ids s) \<longrightarrow>
          message \<noteq> [] \<and>
          build_response i (snd (CreateMessage E h request)) =
            \<lparr>resp_id = i, resp_result = None, resp_error = Some (HandlerError message)\<rparr> \<and>
          outcome (receive s (sess_id s) (build_response i (snd (CreateMessage E h request)))) i
            = Some (Inl (HandlerError message)) \<and>
          pending (receive s (sess_id s) (build_response i (snd (CreateMessage E h request))))
            = filter (\<lambda>e. pe_id e \<noteq> i) (pending s) \<and>
          (\<forall>j. j \<noteq> i \<longrightarrow>
             outcome (receive s (sess_id s) (build_response i (snd (CreateMessage E h request)))) j
               = outcome s j)) \<and>
     (\<forall>t req err.
        SamplingCall t req \<in> set (fst (analyze_file S args)) \<and> RequestSampling S t req = Inl err \<longrightarrow>
          snd (analyze_file S args) = Inr (error_result (''Error requesting sampling: '' @ err)) \<and>
          tool_IsError (error_result (''Error requesting sampling: '' @ err)) \<and>
          tool_Content (error_result (''Error requesting sampling: '' @ err))
            = [TextContent ''text'' (''Error requesting sampling: '' @ err)])"
proof -
  have ok: "table_ok s"
    using assms by (simp add: table_ok_reachable)
  have delivered:
    "message \<noteq> [] \<and>
     build_response i (snd (CreateMessage E h request)) =
       \<lparr>resp_id = i, resp_result = None, resp_error = Some (HandlerError message)\<rparr> \<and>
     outcome (receive s (sess_id s) (build_response i (snd (CreateMessage E h request)))) i
       = Some (Inl (HandlerError message)) \<and>
     pending (receive s (sess_id s) (build_response i (snd (CreateMessage E h request))))
       = filter (\<lambda>e. pe_id e \<noteq> i) (pending s) \<and>
     (\<forall>j. j \<noteq> i \<longrightarrow>
        outcome (receive s (sess_id s) (build_response i (snd (CreateMessage E h request)))) j
          = outcome s j)"
    if failed: "snd (snd (CreateMessage E h request)) = Some message"
      and waiting: "i \<in> set (pending_ids s)"
    for i message
  proof -
    let ?r = "build_response i (snd (CreateMessage E h request))"
    from failed CreateMessage_returns [of E h request] have nonempty: "message \<noteq> []"
      by auto
    have r: "?r = \<lparr>resp_id = i, resp_result = None, resp_error = Some (HandlerError message)\<rparr>"
      using failed by (simp add: build_response_def)
    then have out: "response_outcome ?r = Some (Inl (HandlerError message))"
      and rid: "resp_id ?r = i"
      by (simp_all add: response_outcome_def)
    from waiting rid have w: "resp_id ?r \<in> set (pending_ids s)" by simp
    note m = receive_matched [OF out refl w]
    have fresh: "i \<notin> set (resolved_ids s)"
      using ok waiting by (auto simp: table_ok_def)
    have "outcome (receive s (sess_id s) ?r) i = Some (Inl (HandlerError message))"
      using fresh
      by (simp add: outcome_def m(2) rid resolved_ids_def map_add_Some_iff map_of_eq_None_iff)
    moreover have "pending (receive s (sess_id s) ?r) = filter (\<lambda>e. pe_id e \<noteq> i) (pending s)"
      by (simp add: m(1) rid)
    moreover have "outcome (receive s (sess_id s) ?r) j = outcome s j" if "j \<noteq> i" for j
      using that by (simp add: outcome_def m(2) rid map_add_def split: option.split)
    ultimately show ?thesis using nonempty r by blast
  qed
  have surfaced:
    "snd (analyze_file S args) = Inr (error_result (''Error requesting sampling: '' @ err)) \<and>
     tool_IsError (error_result (''Error requesting sampling: '' @ err)) \<and>
     tool_Content (error_result (''Error requesting sampling: '' @ err))
       = [TextContent ''text'' (''Error requesting sampling: '' @ err)]"
    if "SamplingCall t req \<in> set (fst (analyze_file S args))" "RequestSampling S t req = Inl err"
    for t req err
    using that(1)
  proof (rule SamplingCall_request)
    fix filename fileContent
    assume "t = sampling_timeout"
      and "snd (analyze_file S args) =
       Inr (sampling_reply S filename
              (if mime_TypeByExtension S (strings_ToLower (unicode_ToLower S) (filepath_Ext filename)) = []
               then ''application/octet-stream''
               else mime_TypeByExtension S (strings_ToLower (unicode_ToLower S) (filepath_Ext filename)))
              (GetString args ''analysis_type'' ''summarize'')
              (RequestSampling S sampling_timeout req))"
    with that(2) show ?thesis
      by (simp add: sampling_reply_def error_result_def)
  qed
  from delivered surfaced show ?thesis by blast
qed

theorem handler_error_reported_witness:
  "snd (snd (CreateMessage (demo_client 529) demo_handler
               (demo_request [\<lparr>msg_Role = RoleUser, msg_Content = TextContent ''text'' ''hello''\<rparr>])))
     = Some ''API request failed with status 529'' \<and>
   0 \<in> set (pending_ids (run (new_session 1 0) [Connected, Negotiated True, Send demo_envelope 2])) \<and>
   outcome
     (receive (run (new_session 1 0) [Connected, Negotiated True, Send demo_envelope 2]) 1
        (build_response 0
           (snd (CreateMessage (demo_client 529) demo_handler
                   (demo_request
                      [\<lparr>msg_Role = RoleUser, msg_Content = TextContent ''text'' ''hello''\<rparr>])))))
     0 = Some (Inl (HandlerError ''API request failed with status 529'')) \<and>
   SamplingCall 300 demo_notes_request
     \<in> set (fst (analyze_file (demo_server sampling_fails) (demo_args ''notes.txt''))) \<and>
   RequestSampling (demo_server sampling_fails) 300 demo_notes_request
     = Inl ''context deadline exceeded'' \<and>
   snd (analyze_file (demo_server sampling_fails) (demo_args ''notes.txt''))
     = Inr (error_result ''Error requesting sampling: context deadline exceeded'')"
proof -
  let ?s = "run (new_session 1 0) [Connected, Negotiated True, Send demo_envelope 2]"
  let ?request = "demo_request [\<lparr>msg_Role = RoleUser, msg_Content = TextContent ''text'' ''hello''\<rparr>]"
  note inst = handler_error_reported [OF refl, where sid = 1 and now = 0
      and evs = "[Connected, Negotiated True, Send demo_envelope 2]"
      and E = "demo_client 529" and h = demo_handler and request = ?request
      and S = "demo_server sampling_fails" and args = "demo_args ''notes.txt''"]
  have failed: "snd (snd (CreateMessage (demo_client 529) demo_handler ?request))
      = Some ''API request failed with status 529''"
    by (simp add: demo_client_failed)
  have waiting: "0 \<in> set (pending_ids ?s)" and sid: "sess_id ?s = 1"
    by (simp_all add: session_simps)
  have call: "SamplingCall 300 demo_notes_request
     \<in> set (fst (analyze_file (demo_server sampling_fails) (demo_args ''notes.txt'')))"
    by (simp add: demo_notes_trace)
  have err: "RequestSampling (demo_server sampling_fails) 300 demo_notes_request
     = Inl ''context deadline exceeded''"
    by (simp add: demo_server_def sampling_fails_def)
  from inst failed waiting have
    "outcome (receive ?s (sess_id ?s)
        (build_response 0 (snd (CreateMessage (demo_client 529) demo_handler ?request)))) 0
       = Some (Inl (HandlerError ''API request failed with status 529''))"
    by blast
  then have reported:
    "outcome (receive ?s 1
        (build_response 0 (snd (CreateMessage (demo_client 529) demo_handler ?request)))) 0
       = Some (Inl (HandlerError ''API request failed with status 529''))"
    by (simp only: sid)
  from inst call err have
    "snd (analyze_file (demo_server sampling_fails) (demo_args ''notes.txt''))
       = Inr (error_result (''Error requesting sampling: '' @ ''context deadline exceeded''))"
    by blast
  then have surfaced:
    "snd (analyze_file (demo_server sampling_fails) (demo_args ''notes.txt''))
       = Inr (error_result ''Error requesting sampling: context deadline exceeded'')"
    by simp
  from failed waiting reported call err surfaced show ?thesis
    by blast
qed

end
